theory Spec2Isabelle
  imports Main "HOL-Library.Word"
begin

unbundle bit_operations_syntax

section \<open>UNIX domain sockets of the library OS (LibOS/shim/src/net/unix.c)\<close>

subsection \<open>Constants of the headers\<close>

text \<open>
  The C headers that give these values (\<^verbatim>\<open>linux_socket.h\<close>, \<^verbatim>\<open>asm/fcntl.h\<close>,
  \<^verbatim>\<open>pal.h\<close>) are not among the sources; the values are those of the Linux x86-64 ABI
  and of the PAL URI scheme. \<^verbatim>\<open>struct sockaddr_un\<close> is a 2-byte family followed by a
  108-byte path; \<^verbatim>\<open>struct sockaddr_storage\<close> has 128 bytes.
\<close>

type_synonym byte = "8 word"

definition AF_UNIX :: int where
  "AF_UNIX = 1"

definition SOCK_STREAM :: int where
  "SOCK_STREAM = 1"

definition SOCK_DGRAM :: int where
  "SOCK_DGRAM = 2"

definition O_NONBLOCK :: "32 word" where
  "O_NONBLOCK = 0x800"

definition sizeof_sockaddr_un :: nat where
  "sizeof_sockaddr_un = 110"

definition offsetof_sun_path :: nat where
  "offsetof_sun_path = 2"

definition sizeof_sockaddr_storage :: nat where
  "sizeof_sockaddr_storage = 128"

definition sizeof_ss_family :: nat where
  "sizeof_ss_family = 2"

definition URI_PREFIX_PIPE :: string where
  "URI_PREFIX_PIPE = ''pipe:''"

definition URI_PREFIX_PIPE_SRV :: string where
  "URI_PREFIX_PIPE_SRV = ''pipe.srv:''"

subsection \<open>Results\<close>

text \<open>
  Every function of the backend returns 0 or a negated errno. \<open>E_OTHER\<close> stands for the
  error numbers that only the generic translation \<^verbatim>\<open>pal_to_unix_errno\<close> can produce.
  A failed \<^verbatim>\<open>assert\<close> and \<^verbatim>\<open>BUG()\<close> stop the process; they are results of their own.
  This is the build with assertions: a build that compiles \<^verbatim>\<open>assert\<close> out goes on where
  this one stops, so no property below is drawn from a stop at an assertion.
\<close>

datatype errno =
    EINVAL | EAFNOSUPPORT | ENOMEM | EPROTONOSUPPORT | EADDRINUSE | EOPNOTSUPP
  | ENOENT | ENOPROTOOPT | ENOTCONN | EMSGSIZE | E_OTHER nat

datatype failure = Errno errno | Assert_failed | Bug

subsection \<open>Address buffers\<close>

text \<open>
  An address argument \<^verbatim>\<open>(void* addr, size_t addrlen)\<close> is the list of the bytes at
  \<^verbatim>\<open>addr\<close> together with the declared length. The family is the little-endian 16-bit
  value of the first two bytes, the path starts at offset 2. The functions read the
  family and the path only after they have checked that the declared length covers them;
  that the memory at \<^verbatim>\<open>addr\<close> has the declared length is the caller's part.
\<close>

definition sun_family :: "byte list \<Rightarrow> int" where
  "sun_family addr = uint (addr ! 0) + 256 * uint (addr ! 1)"

definition sun_path :: "byte list \<Rightarrow> byte list" where
  "sun_path addr = drop offsetof_sun_path addr"

text \<open>\<^verbatim>\<open>strnlen(s, maxlen)\<close> of the C library: the number of bytes before the first null
  among the first \<open>maxlen\<close> bytes, \<open>maxlen\<close> when there is none.\<close>

definition strnlen :: "byte list \<Rightarrow> nat \<Rightarrow> nat" where
  "strnlen s maxlen = length (takeWhile (\<lambda>b. b \<noteq> 0) (take maxlen s))"

text \<open>\<^verbatim>\<open>memset(buf + off, v, n)\<close> and \<^verbatim>\<open>memcpy(dst, src, n)\<close> on byte lists.\<close>

definition memset_at :: "byte list \<Rightarrow> nat \<Rightarrow> byte \<Rightarrow> nat \<Rightarrow> byte list" where
  "memset_at buf off v n = take off buf @ replicate n v @ drop (off + n) buf"

definition memcpy :: "byte list \<Rightarrow> byte list \<Rightarrow> nat \<Rightarrow> byte list" where
  "memcpy dst src n = take n src @ drop n dst"

subsection \<open>The digest and the hex encoder\<close>

text \<open>
  \<^verbatim>\<open>lib_SHA256Init\<close>, \<^verbatim>\<open>lib_SHA256Update\<close> and \<^verbatim>\<open>lib_SHA256Final\<close> (\<^verbatim>\<open>crypto.h\<close>) are
  not among the sources. They are parameters; \<open>None\<close> is a negative return value.
\<close>

record 'c crypto =
  lib_SHA256Init :: "'c option"
  lib_SHA256Update :: "'c \<Rightarrow> byte list \<Rightarrow> 'c option"
  lib_SHA256Final :: "'c \<Rightarrow> byte list option"

text \<open>Modelled from the spec: \<^verbatim>\<open>BYTES2HEXSTR\<close> of \<^verbatim>\<open>hex.h\<close>, which is not among the
  sources. Each byte becomes two lowercase hexadecimal characters, high nibble first.\<close>

definition hexdigit :: "nat \<Rightarrow> char" where
  "hexdigit n = ''0123456789abcdef'' ! (n mod 16)"

definition BYTES2HEXSTR :: "byte list \<Rightarrow> string" where
  "BYTES2HEXSTR bs = concat (map (\<lambda>b. [hexdigit (unat b div 16), hexdigit (unat b mod 16)]) bs)"

subsection \<open>Deriving the stream name\<close>

definition unaddr_to_sockname ::
  "'c crypto \<Rightarrow> byte list \<Rightarrow> nat \<Rightarrow> nat \<Rightarrow> failure + string" where
  "unaddr_to_sockname cr addr addrlen0 sock_name_size =
    (let addrlen = (if addrlen0 > sizeof_sockaddr_un then sizeof_sockaddr_un else addrlen0) in
     if addrlen < offsetof_sun_path + 1 then Inl (Errno EINVAL)
     else if sun_family addr \<noteq> AF_UNIX then Inl (Errno EAFNOSUPPORT)
     else
       let path = sun_path addr;
           pathlen0 = addrlen - offsetof_sun_path;
           pathlen = (if path ! 0 \<noteq> 0 then strnlen path pathlen0 else pathlen0)
       in if \<not> (pathlen0 \<ge> 1) then Inl Assert_failed
          else case lib_SHA256Init cr of
            None \<Rightarrow> Inl (Errno ENOMEM)
          | Some c0 \<Rightarrow>
             (case lib_SHA256Update cr c0 (take pathlen path) of
                None \<Rightarrow> Inl (Errno ENOMEM)
              | Some c1 \<Rightarrow>
                 (case lib_SHA256Final cr c1 of
                    None \<Rightarrow> Inl (Errno ENOMEM)
                  | Some hash \<Rightarrow>
                      if \<not> (sock_name_size \<ge> 2 * 32 + 1) then Inl Assert_failed
                      else Inr (BYTES2HEXSTR hash))))"

subsection \<open>Normalising a recorded address\<close>

definition fixup_sockaddr_un_path :: "byte list \<Rightarrow> nat \<Rightarrow> failure + (byte list \<times> nat)" where
  "fixup_sockaddr_un_path ss_addr addrlen =
    (if \<not> (addrlen \<le> sizeof_sockaddr_un) then Inl Assert_failed
     else if \<not> (offsetof_sun_path < addrlen) then Inl Assert_failed
     else if \<not> (sizeof_sockaddr_un < sizeof_sockaddr_storage) then Inl Assert_failed
     else if \<not> (addrlen < sizeof_sockaddr_storage) then Inl Assert_failed
     else
       let path = sun_path ss_addr;
           pathlen0 = addrlen - offsetof_sun_path
       in if \<not> (pathlen0 \<ge> 1) then Inl Assert_failed
          else if path ! 0 = 0 then Inr (ss_addr, addrlen)
          else
            let pathlen = strnlen path pathlen0 in
            if \<not> (sizeof_sockaddr_storage - offsetof_sun_path - pathlen > 0) then Inl Assert_failed
            else
              let ss_addr' = memset_at ss_addr (offsetof_sun_path + pathlen) 0
                               (sizeof_sockaddr_storage - offsetof_sun_path - pathlen);
                  addrlen' = offsetof_sun_path + pathlen + 1
              in if \<not> (addrlen' \<le> sizeof_sockaddr_storage) then Inl Assert_failed
                 else Inr (ss_addr', addrlen'))"

subsection \<open>Handles\<close>

datatype shim_handle_type =
    TYPE_CHROOT | TYPE_CHROOT_ENCRYPTED | TYPE_DEV | TYPE_STR | TYPE_PSEUDO | TYPE_TMPFS
  | TYPE_SYNTHETIC | TYPE_PIPE | TYPE_SOCK | TYPE_EPOLL | TYPE_EVENTFD

datatype shim_sock_state = SOCK_NEW | SOCK_BOUND | SOCK_CONNECTED | SOCK_LISTENING

text \<open>A \<^verbatim>\<open>struct shim_lock\<close> as the calling thread sees it: not created, free, or held by
  the caller.\<close>

datatype shim_lock = No_lock | Unlocked | Locked

text \<open>A \<^verbatim>\<open>PAL_HANDLE\<close> is a pointer: \<open>None\<close> is \<^verbatim>\<open>NULL\<close>, \<open>Some p\<close> a platform stream.
  The operations table and the filesystem are pointers too, kept as their addresses.
  Of \<^verbatim>\<open>struct shim_handle\<close> the fields that the UNIX backend reads or writes are kept
  (\<^verbatim>\<open>type\<close> as \<open>handle_type\<close>, \<^verbatim>\<open>lock\<close> as \<open>handle_lock\<close>, \<^verbatim>\<open>info.sock\<close> as \<open>info_sock\<close>), of
  \<^verbatim>\<open>struct shim_sock_handle\<close> all but the peek buffer. The two address fields are the
  128 bytes of a \<^verbatim>\<open>struct sockaddr_storage\<close>.\<close>

type_synonym PAL_HANDLE = nat

record shim_sock_handle =
  lock :: shim_lock
  ops :: nat
  pal_handle :: "PAL_HANDLE option"
  domain :: int
  type :: int
  protocol :: int
  state :: shim_sock_state
  remote_addr :: "byte list"
  remote_addrlen :: nat
  local_addr :: "byte list"
  local_addrlen :: nat
  recv_lock :: shim_lock
  last_error :: nat
  sendtimeout_us :: nat
  receivetimeout_us :: nat
  was_bound :: bool
  read_shutdown :: bool
  write_shutdown :: bool

record shim_handle =
  handle_type :: shim_handle_type
  fs :: nat
  flags :: "32 word"
  acc_mode :: "32 word"
  handle_lock :: shim_lock
  info_sock :: shim_sock_handle

definition socket_builtin_fs :: nat where
  "socket_builtin_fs = 1"

definition MAY_READ :: "32 word" where
  "MAY_READ = 4"

definition MAY_WRITE :: "32 word" where
  "MAY_WRITE = 2"

subsection \<open>The platform\<close>

text \<open>
  The platform abstraction layer, the allocator and the handle allocator are not among
  the sources. Their answers are parameters of every operation, and every call of them
  is recorded, in order, in the list of events that the operation returns.
\<close>

datatype pal_error =
    PAL_ERROR_STREAMEXIST | PAL_ERROR_CONNFAILED | PAL_ERROR_TOOLONG | PAL_ERROR_OTHER nat

type_synonym pal_stream_options_t = "32 word"

definition PAL_OPTION_NONBLOCK :: pal_stream_options_t where
  "PAL_OPTION_NONBLOCK = 4"

datatype lock_name = Handle_lock | Sock_lock | Recv_lock

record platform =
  DkStreamOpen :: "string \<Rightarrow> pal_stream_options_t \<Rightarrow> pal_error + PAL_HANDLE"
  DkStreamWaitForClient :: "PAL_HANDLE \<Rightarrow> pal_stream_options_t \<Rightarrow> pal_error + PAL_HANDLE"
  DkStreamWrite :: "PAL_HANDLE \<Rightarrow> byte list \<Rightarrow> pal_error + nat"
  DkStreamRead :: "PAL_HANDLE \<Rightarrow> nat \<Rightarrow> pal_error + byte list"
  pal_to_unix_errno :: "pal_error \<Rightarrow> errno"
  malloc :: "nat \<Rightarrow> (nat \<Rightarrow> byte) option"
  get_new_handle :: "shim_handle option"
  create_lock :: "lock_name \<Rightarrow> bool"

datatype event =
    Ev_DkStreamOpen string pal_stream_options_t
  | Ev_DkStreamWaitForClient PAL_HANDLE pal_stream_options_t
  | Ev_DkStreamWrite PAL_HANDLE "byte list"
  | Ev_DkStreamRead PAL_HANDLE nat
  | Ev_DkObjectClose PAL_HANDLE
  | Ev_put_handle shim_handle
  | Ev_interrupt_epolls
  | Ev_log_warning
  | Ev_lock lock_name
  | Ev_unlock lock_name

subsection \<open>The operations of the backend\<close>

text \<open>
  An operation that writes to its handle returns its result, the handle afterwards and
  the events; the others return their result and the events. A scatter/gather array
  \<^verbatim>\<open>(struct iovec* iov, size_t iov_len)\<close> is the list of its buffers, each buffer the list
  of its \<^verbatim>\<open>iov_len\<close> bytes. The function \<^verbatim>\<open>bind\<close> is \<open>bind_unix\<close> here, and the variable
  \<^verbatim>\<open>size\<close> is \<open>sz\<close>: both names are taken.
\<close>

definition nonblock_options :: "shim_handle \<Rightarrow> pal_stream_options_t" where
  "nonblock_options handle = (if flags handle AND O_NONBLOCK \<noteq> 0 then PAL_OPTION_NONBLOCK else 0)"

definition set_ss_family :: "byte list \<Rightarrow> int \<Rightarrow> byte list" where
  "set_ss_family ss fam = memcpy ss [word_of_int fam, word_of_int (fam div 256)] sizeof_ss_family"


definition bind_unix ::
  "'c crypto \<Rightarrow> platform \<Rightarrow> shim_handle \<Rightarrow> byte list \<Rightarrow> nat
     \<Rightarrow> (failure + unit) \<times> shim_handle \<times> event list" where
  "bind_unix cr pal handle addr addrlen =
    (let sock = info_sock handle in
     if \<not> (lock sock = Locked) then (Inl Assert_failed, handle, [])
     else case unaddr_to_sockname cr addr addrlen (64 + 1) of
       Inl f \<Rightarrow> (Inl f, handle, [])
     | Inr sock_name \<Rightarrow>
        let pipe_name = URI_PREFIX_PIPE_SRV @ sock_name;
            options = nonblock_options handle;
            evs = [Ev_lock Handle_lock, Ev_unlock Handle_lock, Ev_DkStreamOpen pipe_name options]
        in case DkStreamOpen pal pipe_name options of
             Inl ret \<Rightarrow>
               (Inl (Errno (if ret = PAL_ERROR_STREAMEXIST then EADDRINUSE
                            else pal_to_unix_errno pal ret)), handle, evs)
           | Inr new_pal_handle \<Rightarrow>
               let n = min addrlen sizeof_sockaddr_un;
                   sock1 = sock\<lparr>pal_handle := Some new_pal_handle,
                                local_addrlen := n,
                                local_addr := memcpy (local_addr sock) addr n\<rparr>
               in case fixup_sockaddr_un_path (local_addr sock1) (local_addrlen sock1) of
                    Inl f \<Rightarrow> (Inl f, handle\<lparr>info_sock := sock1\<rparr>, evs)
                  | Inr (a, l) \<Rightarrow>
                      (Inr (),
                       handle\<lparr>info_sock := sock1\<lparr>local_addr := a, local_addrlen := l\<rparr>\<rparr>,
                       evs @ [Ev_interrupt_epolls]))"

definition listen :: "shim_handle \<Rightarrow> nat \<Rightarrow> failure + unit" where
  "listen handle backlog =
    (if type (info_sock handle) \<noteq> SOCK_STREAM then Inl (Errno EOPNOTSUPP)
     else if \<not> (state (info_sock handle) = SOCK_BOUND \<or> state (info_sock handle) = SOCK_LISTENING)
       then Inl Assert_failed
     else Inr ())"

definition accept ::
  "platform \<Rightarrow> shim_handle \<Rightarrow> bool \<Rightarrow> (failure + shim_handle) \<times> event list" where
  "accept pal handle is_nonblocking =
    (let options = (if is_nonblocking then PAL_OPTION_NONBLOCK else 0) in
     case pal_handle (info_sock handle) of
       None \<Rightarrow> (Inl Assert_failed, [])
     | Some ph \<Rightarrow>
        let evs = [Ev_DkStreamWaitForClient ph options] in
        (case DkStreamWaitForClient pal ph options of
           Inl ret \<Rightarrow> (Inl (Errno (pal_to_unix_errno pal ret)), evs)
         | Inr client_pal_handle \<Rightarrow>
            (case get_new_handle pal of
               None \<Rightarrow> (Inl (Errno ENOMEM), evs @ [Ev_DkObjectClose client_pal_handle])
             | Some new_handle \<Rightarrow>
                let client_handle = new_handle\<lparr>handle_type := TYPE_SOCK,
                                      fs := socket_builtin_fs,
                                      flags := (if is_nonblocking then O_NONBLOCK else 0),
                                      acc_mode := MAY_READ OR MAY_WRITE\<rparr>;
                    client_sock = (info_sock client_handle)\<lparr>
                                      pal_handle := Some client_pal_handle,
                                      state := SOCK_CONNECTED,
                                      ops := ops (info_sock handle),
                                      domain := domain (info_sock handle),
                                      type := type (info_sock handle),
                                      protocol := protocol (info_sock handle),
                                      was_bound := False,
                                      read_shutdown := False,
                                      write_shutdown := False\<rparr>
                in if \<not> create_lock pal Sock_lock
                   then (Inl (Errno ENOMEM),
                         evs @ [Ev_put_handle (client_handle\<lparr>info_sock := client_sock\<rparr>)])
                   else if \<not> create_lock pal Recv_lock
                   then (Inl (Errno ENOMEM),
                         evs @ [Ev_put_handle
                                  (client_handle\<lparr>info_sock := client_sock\<lparr>lock := Unlocked\<rparr>\<rparr>)])
                   else
                     let client_sock1 = client_sock\<lparr>
                                      lock := Unlocked,
                                      recv_lock := Unlocked,
                                      remote_addr := set_ss_family (remote_addr client_sock) AF_UNIX,
                                      remote_addrlen := sizeof_ss_family\<rparr>;
                         client_sock2 = client_sock1\<lparr>
                                      local_addrlen := local_addrlen (info_sock handle),
                                      local_addr := memcpy (local_addr client_sock1)
                                                      (local_addr (info_sock handle))
                                                      (local_addrlen (info_sock handle))\<rparr>
                     in (Inr (client_handle\<lparr>info_sock := client_sock2\<rparr>),
                         evs @ [Ev_lock Sock_lock, Ev_unlock Sock_lock]))))"

definition connect ::
  "'c crypto \<Rightarrow> platform \<Rightarrow> shim_handle \<Rightarrow> byte list \<Rightarrow> nat
     \<Rightarrow> (failure + unit) \<times> shim_handle \<times> event list" where
  "connect cr pal handle addr addrlen =
    (let sock = info_sock handle in
     if \<not> (lock sock = Locked) then (Inl Assert_failed, handle, [])
     else if state sock \<noteq> SOCK_NEW then (Inl (Errno EINVAL), handle, [Ev_log_warning])
     else case unaddr_to_sockname cr addr addrlen (64 + 1) of
       Inl f \<Rightarrow> (Inl f, handle, [])
     | Inr sock_name \<Rightarrow>
        let pipe_name = URI_PREFIX_PIPE @ sock_name;
            options = nonblock_options handle;
            evs = [Ev_lock Handle_lock, Ev_unlock Handle_lock, Ev_DkStreamOpen pipe_name options]
        in case DkStreamOpen pal pipe_name options of
             Inl ret \<Rightarrow>
               (Inl (Errno (if ret = PAL_ERROR_CONNFAILED then ENOENT
                            else pal_to_unix_errno pal ret)), handle, evs)
           | Inr new_pal_handle \<Rightarrow>
               if \<not> (pal_handle sock = None) then (Inl Assert_failed, handle, evs)
               else
                 let n = min addrlen sizeof_sockaddr_un;
                     sock1 = sock\<lparr>pal_handle := Some new_pal_handle,
                                  remote_addrlen := n,
                                  remote_addr := memcpy (remote_addr sock) addr n\<rparr>
                 in case fixup_sockaddr_un_path (remote_addr sock1) (remote_addrlen sock1) of
                      Inl f \<Rightarrow> (Inl f, handle\<lparr>info_sock := sock1\<rparr>, evs)
                    | Inr (a, l) \<Rightarrow>
                        let sock2 = sock1\<lparr>remote_addr := a, remote_addrlen := l\<rparr> in
                        if state sock2 \<noteq> SOCK_BOUND then
                          (if \<not> (state sock2 = SOCK_NEW)
                           then (Inl Assert_failed, handle\<lparr>info_sock := sock2\<rparr>, evs)
                           else (Inr (),
                                 handle\<lparr>info_sock := sock2\<lparr>
                                    local_addr := set_ss_family (local_addr sock2) AF_UNIX,
                                    local_addrlen := sizeof_ss_family\<rparr>\<rparr>,
                                 evs @ [Ev_interrupt_epolls]))
                        else (Inr (), handle\<lparr>info_sock := sock2\<rparr>, evs @ [Ev_interrupt_epolls]))"

definition disconnect :: "shim_handle \<Rightarrow> failure + unit" where
  "disconnect handle = Inl (Errno EINVAL)"

text \<open>The size of a scatter/gather array: the first loop of \<^verbatim>\<open>send\<close> and \<^verbatim>\<open>recv\<close>.\<close>

fun iov_size :: "byte list list \<Rightarrow> nat \<Rightarrow> nat" where
  "iov_size [] sz = sz"
| "iov_size (b # iov) sz = iov_size iov (sz + length b)"

text \<open>\<^verbatim>\<open>memcpy(dst + off, src, n)\<close>.\<close>

definition memcpy_at :: "byte list \<Rightarrow> nat \<Rightarrow> byte list \<Rightarrow> nat \<Rightarrow> byte list" where
  "memcpy_at dst off src n = take off dst @ take n src @ drop (off + n) dst"

text \<open>The second loop of \<^verbatim>\<open>send\<close>: every buffer is copied into the backing buffer at the
  running offset \<^verbatim>\<open>size\<close>.\<close>

fun gather :: "byte list list \<Rightarrow> byte list \<Rightarrow> nat \<Rightarrow> byte list \<times> nat" where
  "gather [] backing_buf sz = (backing_buf, sz)"
| "gather (b # iov) backing_buf sz =
     gather iov (memcpy_at backing_buf sz b (length b)) (sz + length b)"

text \<open>A block of \<open>n\<close> bytes from \<^verbatim>\<open>malloc\<close>, with the contents it happens to have.\<close>

definition block :: "(nat \<Rightarrow> byte) \<Rightarrow> nat \<Rightarrow> byte list" where
  "block m n = map m [0..<n]"

text \<open>Modelled from the spec: the calls of \<^verbatim>\<open>DkStreamWrite\<close> and \<^verbatim>\<open>DkStreamRead\<close>, which
  are not among the sources. They take \<^verbatim>\<open>size\<close> by reference and leave in it the number
  of bytes transferred, which may be fewer than requested and is never more: a write
  reports at most the length of the buffer, a read stores at most \<^verbatim>\<open>size\<close> bytes at the
  start of the buffer. Whatever the parameter answers is cut to that.\<close>

definition stream_write :: "platform \<Rightarrow> PAL_HANDLE \<Rightarrow> byte list \<Rightarrow> pal_error + nat" where
  "stream_write pal ph buf =
     (case DkStreamWrite pal ph buf of Inl ret \<Rightarrow> Inl ret | Inr n \<Rightarrow> Inr (min n (length buf)))"

definition stream_read :: "platform \<Rightarrow> PAL_HANDLE \<Rightarrow> nat \<Rightarrow> pal_error + byte list" where
  "stream_read pal ph sz =
     (case DkStreamRead pal ph sz of Inl ret \<Rightarrow> Inl ret | Inr d \<Rightarrow> Inr (take sz d))"

text \<open>The sizes are \<^verbatim>\<open>size_t\<close>; the sum of the lengths of buffers that exist in memory does
  not wrap around, and the sizes are natural numbers here.\<close>

definition send ::
  "platform \<Rightarrow> shim_handle \<Rightarrow> byte list list \<Rightarrow> (failure + nat) \<times> event list" where
  "send pal handle iov =
    (if type (info_sock handle) = SOCK_DGRAM then (Inl Bug, [])
     else case pal_handle (info_sock handle) of
       None \<Rightarrow> (Inl (Errno ENOTCONN), [])
     | Some ph \<Rightarrow>
        (case (if length iov = 1 then Some (iov ! 0)
               else (case malloc pal (iov_size iov 0) of
                       None \<Rightarrow> None
                     | Some m \<Rightarrow> Some (fst (gather iov (block m (iov_size iov 0)) 0)))) of
           None \<Rightarrow> (Inl (Errno ENOMEM), [])
         | Some buf \<Rightarrow>
            (case stream_write pal ph buf of
               Inl ret \<Rightarrow>
                 (Inl (Errno (if ret = PAL_ERROR_TOOLONG then EMSGSIZE
                              else pal_to_unix_errno pal ret)), [Ev_DkStreamWrite ph buf])
             | Inr sz \<Rightarrow> (Inr sz, [Ev_DkStreamWrite ph buf]))))"

text \<open>The copy-back loop of \<^verbatim>\<open>recv\<close>: it returns the buffers afterwards and \<^verbatim>\<open>copied\<close>.\<close>

fun scatter :: "byte list list \<Rightarrow> byte list \<Rightarrow> nat \<Rightarrow> nat \<Rightarrow> byte list list \<times> nat" where
  "scatter [] buf sz copied = ([], copied)"
| "scatter (b # iov) buf sz copied =
     (if copied < sz
      then let this_size = min (sz - copied) (length b);
               r = scatter iov buf sz (copied + this_size)
           in (memcpy b (drop copied buf) this_size # fst r, snd r)
      else (b # iov, copied))"

definition recv ::
  "platform \<Rightarrow> shim_handle \<Rightarrow> byte list list \<Rightarrow> bool
     \<Rightarrow> (failure + nat \<times> byte list list) \<times> event list" where
  "recv pal handle iov is_nonblocking =
    (if type (info_sock handle) = SOCK_DGRAM then (Inl Bug, [])
     else case pal_handle (info_sock handle) of
       None \<Rightarrow> (Inl (Errno ENOTCONN), [])
     | Some ph \<Rightarrow>
        let evs0 = (if is_nonblocking then [Ev_lock Handle_lock, Ev_unlock Handle_lock] else []) in
        if is_nonblocking \<and> \<not> (flags handle AND O_NONBLOCK \<noteq> 0)
        then (Inl (Errno EINVAL), evs0)
        else if length iov = 1 then
          (let sz = length (iov ! 0);
               evs = evs0 @ [Ev_DkStreamRead ph sz]
           in case stream_read pal ph sz of
                Inl ret \<Rightarrow> (Inl (Errno (pal_to_unix_errno pal ret)), evs)
              | Inr got \<Rightarrow> (Inr (length got, [memcpy (iov ! 0) got (length got)]), evs))
        else
          (let sz = iov_size iov 0 in
           case malloc pal sz of
             None \<Rightarrow> (Inl (Errno ENOMEM), evs0)
           | Some m \<Rightarrow>
              let evs = evs0 @ [Ev_DkStreamRead ph sz] in
              (case stream_read pal ph sz of
                 Inl ret \<Rightarrow> (Inl (Errno (pal_to_unix_errno pal ret)), evs)
               | Inr got \<Rightarrow>
                   let buf = memcpy (block m sz) got (length got);
                       r = scatter iov buf (length got) 0
                   in if \<not> (snd r = length got) then (Inl Assert_failed, evs)
                      else (Inr (length got, fst r), evs))))"

subsection \<open>Concrete inputs\<close>

text \<open>
  Stand-ins for the parameters, used where a statement is evaluated on a concrete input:
  a digest that keeps the first 32 bytes of its message (padded with nulls), a digest
  that cannot be initialised, a platform that accepts every call, and a stream socket
  as \<^verbatim>\<open>create\<close> leaves it, with its socket lock held by the caller.
\<close>

definition example_crypto :: "byte list crypto" where
  "example_crypto =
     \<lparr>lib_SHA256Init = Some [],
      lib_SHA256Update = (\<lambda>c bs. Some (c @ bs)),
      lib_SHA256Final = (\<lambda>c. Some (take 32 (c @ replicate 32 0)))\<rparr>"

definition failing_crypto :: "byte list crypto" where
  "failing_crypto =
     \<lparr>lib_SHA256Init = None,
      lib_SHA256Update = (\<lambda>c bs. Some (c @ bs)),
      lib_SHA256Final = (\<lambda>c. Some (take 32 (c @ replicate 32 0)))\<rparr>"

definition example_sock :: shim_sock_handle where
  "example_sock =
     \<lparr>lock = Locked, ops = 1, pal_handle = None, domain = AF_UNIX, type = SOCK_STREAM,
      protocol = 0, state = SOCK_NEW,
      remote_addr = replicate 128 0, remote_addrlen = 0,
      local_addr = replicate 128 0, local_addrlen = 0,
      recv_lock = Unlocked, last_error = 0, sendtimeout_us = 0, receivetimeout_us = 0,
      was_bound = False, read_shutdown = False, write_shutdown = False\<rparr>"

definition example_handle :: shim_handle where
  "example_handle =
     \<lparr>handle_type = TYPE_SOCK, fs = socket_builtin_fs, flags = 2, acc_mode = MAY_READ OR MAY_WRITE,
      handle_lock = Unlocked, info_sock = example_sock\<rparr>"

definition example_pal :: platform where
  "example_pal =
     \<lparr>DkStreamOpen = (\<lambda>name options. Inr 7),
      DkStreamWaitForClient = (\<lambda>ph options. Inr 9),
      DkStreamWrite = (\<lambda>ph buf. Inr (length buf)),
      DkStreamRead = (\<lambda>ph sz. Inr (take sz [104, 101, 108, 108, 111])),
      pal_to_unix_errno = (\<lambda>e. E_OTHER 5),
      malloc = (\<lambda>n. Some (\<lambda>i. 170)),
      get_new_handle = Some example_handle,
      create_lock = (\<lambda>l. True)\<rparr>"

text \<open>The pathname address \<^verbatim>\<open>"/x"\<close> followed by a null and two bytes of garbage, the same
  path followed by a null only, and the abstract address \<^verbatim>\<open>"\0a"\<close>.\<close>

definition addr_x_garbage :: "byte list" where
  "addr_x_garbage = [1, 0, 47, 120, 0, 33, 34]"

definition addr_x_clean :: "byte list" where
  "addr_x_clean = [1, 0, 47, 120, 0]"

definition addr_abstract :: "byte list" where
  "addr_abstract = [1, 0, 0, 97]"

text \<open>The example socket once connected to the platform stream 3, and a platform whose
  stream primitives all fail with the error they are given.\<close>

definition connected_handle :: shim_handle where
  "connected_handle =
     example_handle\<lparr>info_sock := example_sock\<lparr>pal_handle := Some 3, state := SOCK_CONNECTED\<rparr>\<rparr>"

definition failing_pal :: "pal_error \<Rightarrow> platform" where
  "failing_pal e =
     example_pal\<lparr>DkStreamOpen := (\<lambda>name options. Inl e),
                 DkStreamWaitForClient := (\<lambda>ph options. Inl e),
                 DkStreamWrite := (\<lambda>ph buf. Inl e),
                 DkStreamRead := (\<lambda>ph sz. Inl e)\<rparr>"

text \<open>A listening socket bound to \<^verbatim>\<open>"/x"\<close>.\<close>

definition listening_handle :: shim_handle where
  "listening_handle =
     example_handle\<lparr>info_sock := example_sock\<lparr>lock := Unlocked, pal_handle := Some 3,
        state := SOCK_LISTENING, local_addr := addr_x_clean @ replicate 123 0,
        local_addrlen := 5\<rparr>\<rparr>"





section \<open>Properties\<close>

subsection \<open>Paths\<close>

lemma strnlen_le: "strnlen s n \<le> n"
proof -
  have "length (takeWhile (\<lambda>b. b \<noteq> 0) (take n s)) \<le> length (take n s)"
    by (rule length_takeWhile_le)
  then show ?thesis
    by (simp add: strnlen_def)
qed

lemma take_strnlen: "take (strnlen s n) s = takeWhile (\<lambda>b. b \<noteq> 0) (take n s)"
proof -
  let ?p = "takeWhile (\<lambda>b. b \<noteq> 0) (take n s)"
  have "?p = take (length ?p) (take n s)"
    by (rule takeWhile_eq_take)
  also have "\<dots> = take (min (length ?p) n) s"
    by simp
  also have "min (length ?p) n = length ?p"
    using strnlen_le [of s n] by (simp add: strnlen_def)
  finally show ?thesis
    by (simp add: strnlen_def)
qed

lemma strnlen_prefix:
  assumes "0 \<notin> set p" and "length p \<le> k"
  shows "strnlen (p @ 0 # g) k = length p"
proof -
  have "take k (p @ 0 # g) = p @ take (k - length p) (0 # g)"
    using assms(2) by simp
  moreover have "takeWhile (\<lambda>b. b \<noteq> 0) (p @ take (k - length p) (0 # g)) = p"
  proof -
    have "\<forall>x\<in>set p. x \<noteq> 0" using assms(1) by auto
    then have "takeWhile (\<lambda>b. b \<noteq> 0) (p @ take (k - length p) (0 # g))
                 = p @ takeWhile (\<lambda>b. b \<noteq> 0) (take (k - length p) (0 # g))"
      by (simp add: takeWhile_append2)
    also have "takeWhile (\<lambda>b. b \<noteq> 0) (take (k - length p) (0 # g)) = []"
      by (cases "k - length p") simp_all
    finally show ?thesis by simp
  qed
  ultimately show ?thesis
    by (simp add: strnlen_def)
qed

lemma unaddr_to_sockname_valid:
  assumes "sun_family a = AF_UNIX" and "offsetof_sun_path < len" and "65 \<le> n"
  shows "unaddr_to_sockname cr a len n =
    (case lib_SHA256Init cr of
       None \<Rightarrow> Inl (Errno ENOMEM)
     | Some c0 \<Rightarrow>
        (case lib_SHA256Update cr c0
                (take (if sun_path a ! 0 \<noteq> 0
                       then strnlen (sun_path a) (min len sizeof_sockaddr_un - offsetof_sun_path)
                       else min len sizeof_sockaddr_un - offsetof_sun_path) (sun_path a)) of
           None \<Rightarrow> Inl (Errno ENOMEM)
         | Some c1 \<Rightarrow>
            (case lib_SHA256Final cr c1 of
               None \<Rightarrow> Inl (Errno ENOMEM)
             | Some hash \<Rightarrow> Inr (BYTES2HEXSTR hash))))"
proof -
  have c: "(if sizeof_sockaddr_un < len then sizeof_sockaddr_un else len) = min len sizeof_sockaddr_un"
    by simp
  have lo: "\<not> min len sizeof_sockaddr_un < offsetof_sun_path + 1"
    and k1: "1 \<le> min len sizeof_sockaddr_un - offsetof_sun_path"
    using assms(2) by (simp_all add: offsetof_sun_path_def sizeof_sockaddr_un_def)
  have n: "2 * 32 + 1 \<le> n"
    using assms(3) by simp
  show ?thesis
    unfolding unaddr_to_sockname_def Let_def c
    by (simp only: lo k1 n assms(1) if_False not_not simp_thms)
qed

lemma unaddr_to_sockname_pathname:
  assumes "sun_family a = AF_UNIX" and "sun_path a = p @ 0 # g"
    and "p \<noteq> []" and "0 \<notin> set p"
    and "offsetof_sun_path + length p < len"
    and "offsetof_sun_path + length p \<le> sizeof_sockaddr_un"
    and "65 \<le> n"
  shows "unaddr_to_sockname cr a len n =
    (case lib_SHA256Init cr of
       None \<Rightarrow> Inl (Errno ENOMEM)
     | Some c0 \<Rightarrow>
        (case lib_SHA256Update cr c0 p of
           None \<Rightarrow> Inl (Errno ENOMEM)
         | Some c1 \<Rightarrow>
            (case lib_SHA256Final cr c1 of
               None \<Rightarrow> Inl (Errno ENOMEM)
             | Some hash \<Rightarrow> Inr (BYTES2HEXSTR hash))))"
proof -
  let ?k = "min len sizeof_sockaddr_un - offsetof_sun_path"
  have k: "length p \<le> ?k"
    using assms(5,6) by arith
  have lt: "offsetof_sun_path < len"
    using assms(5) by arith
  have nz: "sun_path a ! 0 \<noteq> 0"
    using assms(2,3,4) by (cases p) auto
  have sl: "strnlen (sun_path a) ?k = length p"
    using strnlen_prefix [OF assms(4) k] assms(2) by simp
  have tk: "take (length p) (sun_path a) = p"
    using assms(2) by simp
  show ?thesis
    unfolding unaddr_to_sockname_valid [OF assms(1) lt assms(7)]
    by (simp only: nz sl tk if_True if_False simp_thms)
qed

subsection \<open>The loops over a scatter/gather array\<close>

lemma iov_size_concat: "iov_size iov n = n + length (concat iov)"
  by (induction iov arbitrary: n) auto

lemma length_block: "length (block m n) = n"
  by (simp add: block_def)

lemma gather_concat:
  "sz + length (concat iov) \<le> length backing \<Longrightarrow>
   gather iov backing sz =
     (take sz backing @ concat iov @ drop (sz + length (concat iov)) backing,
      sz + length (concat iov))"
proof (induction iov arbitrary: backing sz)
  case Nil
  then show ?case by simp
next
  case (Cons b iov)
  let ?bk = "memcpy_at backing sz b (length b)"
  have len: "length ?bk = length backing"
    using Cons.prems by (simp add: memcpy_at_def)
  have pre: "(sz + length b) + length (concat iov) \<le> length ?bk"
    using Cons.prems len by simp
  have tk: "take (sz + length b) ?bk = take sz backing @ b"
    using Cons.prems by (simp add: memcpy_at_def)
  have dr: "drop (sz + length b + length (concat iov)) ?bk
            = drop (sz + length b + length (concat iov)) backing"
    using Cons.prems by (simp add: memcpy_at_def ac_simps)
  show ?case
    using Cons.IH [OF pre] tk dr by (simp add: add.assoc)
qed

lemma gather_block: "fst (gather iov (block m (iov_size iov 0)) 0) = concat iov"
  by (simp add: gather_concat length_block iov_size_concat)

lemma scatter_lengths:
  "sz \<le> length buf \<Longrightarrow> map length (fst (scatter iov buf sz copied)) = map length iov"
  by (induction iov arbitrary: copied) (auto simp: Let_def memcpy_def)

lemma scatter_copied:
  "copied \<le> sz \<Longrightarrow> snd (scatter iov buf sz copied) = min sz (copied + length (concat iov))"
  by (induction iov arbitrary: copied) (auto simp: Let_def)

lemma scatter_concat:
  "copied \<le> sz \<Longrightarrow> sz \<le> length buf \<Longrightarrow> sz \<le> copied + length (concat iov) \<Longrightarrow>
   concat (fst (scatter iov buf sz copied)) =
     take (sz - copied) (drop copied buf) @ drop (sz - copied) (concat iov)"
proof (induction iov arbitrary: copied)
  case Nil
  then show ?case by simp
next
  case (Cons b iov)
  show ?case
  proof (cases "copied < sz")
    case False
    with Cons.prems show ?thesis by simp
  next
    case True
    let ?t = "min (sz - copied) (length b)"
    have le: "copied + ?t \<le> sz" using True by simp
    have cap: "sz \<le> copied + ?t + length (concat iov)" using Cons.prems(3) by auto
    note ih = Cons.IH [OF le Cons.prems(2) cap]
    show ?thesis
    proof (cases "sz - copied \<le> length b")
      case True
      then have t: "?t = sz - copied" by simp
      show ?thesis using ih \<open>copied < sz\<close> Cons.prems t
        by (simp add: Let_def memcpy_def)
    next
      case False
      then have t: "?t = length b" by simp
      have e: "sz - copied = length b + (sz - (copied + length b))"
        using False by simp
      have "take (sz - copied) (drop copied buf)
            = take (length b) (drop copied buf) @
              take (sz - (copied + length b)) (drop (length b) (drop copied buf))"
        by (subst e) (rule take_add)
      then have "take (sz - copied) (drop copied buf)
            = take (length b) (drop copied buf) @
              take (sz - (copied + length b)) (drop (copied + length b) buf)"
        by (simp add: add.commute)
      then show ?thesis using ih \<open>copied < sz\<close> Cons.prems t False
        by (simp add: Let_def memcpy_def)
    qed
  qed
qed

lemma send_connected:
  assumes "type (info_sock h) \<noteq> SOCK_DGRAM" and "pal_handle (info_sock h) = Some ph"
    and "length iov \<noteq> 1 \<longrightarrow> malloc pal (length (concat iov)) \<noteq> None"
  shows "send pal h iov =
    (case DkStreamWrite pal ph (concat iov) of
       Inl ret \<Rightarrow> Inl (Errno (if ret = PAL_ERROR_TOOLONG then EMSGSIZE else pal_to_unix_errno pal ret))
     | Inr n \<Rightarrow> Inr (min n (length (concat iov))),
     [Ev_DkStreamWrite ph (concat iov)])"
proof (cases "length iov = 1")
  case True
  then obtain b where "iov = [b]"
    by (cases iov) auto
  then show ?thesis
    using assms by (simp add: send_def stream_write_def split: sum.splits)
next
  case False
  then obtain m where "malloc pal (length (concat iov)) = Some m"
    using assms(3) by auto
  then show ?thesis
    using assms(1,2) False
    by (simp add: send_def stream_write_def iov_size_concat gather_concat length_block
        split: sum.splits)
qed

lemma recv_connected:
  assumes "type (info_sock h) \<noteq> SOCK_DGRAM" and "pal_handle (info_sock h) = Some ph"
    and "nb \<longrightarrow> flags h AND O_NONBLOCK \<noteq> 0"
    and "length iov \<noteq> 1 \<longrightarrow> malloc pal (length (concat iov)) \<noteq> None"
    and "DkStreamRead pal ph (length (concat iov)) = Inr d"
    and "length d \<le> length (concat iov)"
  shows "\<exists>bufs. recv pal h iov nb =
           (Inr (length d, bufs),
            (if nb then [Ev_lock Handle_lock, Ev_unlock Handle_lock] else []) @
            [Ev_DkStreamRead ph (length (concat iov))]) \<and>
         map length bufs = map length iov \<and>
         concat bufs = d @ drop (length d) (concat iov)"
proof (cases "length iov = 1")
  case True
  then obtain b where b: "iov = [b]"
    by (cases iov) auto
  show ?thesis
    using assms b by (simp add: recv_def stream_read_def memcpy_def)
next
  case False
  then obtain m where m: "malloc pal (length (concat iov)) = Some m"
    using assms(4) by auto
  let ?sz = "length (concat iov)"
  let ?buf = "memcpy (block m ?sz) d (length d)"
  let ?r = "scatter iov ?buf (length d) 0"
  have lb: "length d \<le> length ?buf"
    using assms(6) by (simp add: memcpy_def length_block)
  have tk: "take (length d) ?buf = d"
    by (simp add: memcpy_def)
  have c: "snd ?r = length d"
    using assms(6) by (simp add: scatter_copied)
  have l: "map length (fst ?r) = map length iov"
    using lb by (rule scatter_lengths)
  have cc: "concat (fst ?r) = d @ drop (length d) (concat iov)"
    using scatter_concat [of 0 "length d" ?buf iov] lb assms(6) tk by simp
  have "recv pal h iov nb =
           (Inr (length d, fst ?r),
            (if nb then [Ev_lock Handle_lock, Ev_unlock Handle_lock] else []) @
            [Ev_DkStreamRead ph ?sz])"
    using assms(1,2,3,5,6) False m c
    by (simp add: recv_def stream_read_def iov_size_concat Let_def)
  then show ?thesis
    using l cc by blast
qed

lemma recv_failed:
  assumes "type (info_sock h) \<noteq> SOCK_DGRAM" and "pal_handle (info_sock h) = Some ph"
    and "nb \<longrightarrow> flags h AND O_NONBLOCK \<noteq> 0"
    and "length iov \<noteq> 1 \<longrightarrow> malloc pal (length (concat iov)) \<noteq> None"
    and "DkStreamRead pal ph (length (concat iov)) = Inl e"
  shows "recv pal h iov nb =
           (Inl (Errno (pal_to_unix_errno pal e)),
            (if nb then [Ev_lock Handle_lock, Ev_unlock Handle_lock] else []) @
            [Ev_DkStreamRead ph (length (concat iov))])"
proof (cases "length iov = 1")
  case True
  then obtain b where b: "iov = [b]"
    by (cases iov) auto
  show ?thesis
    using assms b by (simp add: recv_def stream_read_def)
next
  case False
  then obtain m where m: "malloc pal (length (concat iov)) = Some m"
    using assms(4) by auto
  show ?thesis
    using assms(1,2,3,5) False m by (simp add: recv_def stream_read_def iov_size_concat)
qed

lemma scatter_nothing: "scatter iov buf 0 0 = (iov, 0)"
  by (cases iov) simp_all

subsection \<open>Accepting\<close>

lemma sun_family_set_ss_family: "sun_family (set_ss_family ss AF_UNIX) = AF_UNIX"
  by (simp add: sun_family_def set_ss_family_def memcpy_def sizeof_ss_family_def AF_UNIX_def)

lemma accept_success:
  assumes "accept pal h nb = (Inr c, evs)"
  shows "\<exists>ph cph nh.
           pal_handle (info_sock h) = Some ph \<and>
           DkStreamWaitForClient pal ph (if nb then PAL_OPTION_NONBLOCK else 0) = Inr cph \<and>
           get_new_handle pal = Some nh \<and> create_lock pal Sock_lock \<and> create_lock pal Recv_lock \<and>
           evs = [Ev_DkStreamWaitForClient ph (if nb then PAL_OPTION_NONBLOCK else 0),
                  Ev_lock Sock_lock, Ev_unlock Sock_lock] \<and>
           c = nh\<lparr>handle_type := TYPE_SOCK, fs := socket_builtin_fs,
                   flags := (if nb then O_NONBLOCK else 0), acc_mode := MAY_READ OR MAY_WRITE,
                   info_sock := (info_sock nh)\<lparr>
                     pal_handle := Some cph, state := SOCK_CONNECTED,
                     ops := ops (info_sock h), domain := domain (info_sock h),
                     type := type (info_sock h), protocol := protocol (info_sock h),
                     was_bound := False, read_shutdown := False, write_shutdown := False,
                     lock := Unlocked, recv_lock := Unlocked,
                     remote_addr := set_ss_family (remote_addr (info_sock nh)) AF_UNIX,
                     remote_addrlen := sizeof_ss_family,
                     local_addrlen := local_addrlen (info_sock h),
                     local_addr := memcpy (local_addr (info_sock nh)) (local_addr (info_sock h))
                                     (local_addrlen (info_sock h))\<rparr>\<rparr>"
  using assms
  by (auto simp: accept_def Let_def split: option.splits sum.splits if_splits)

subsection \<open>The declared length is clamped\<close>

text \<open>
  Claim C10. A declared length above \<^verbatim>\<open>sizeof(struct sockaddr_un)\<close> is not rejected: it is
  replaced by that size before the validation and the hashing, so the result (the error
  or the derived name) is the one for the same buffer with the declared length equal to
  \<^verbatim>\<open>sizeof(struct sockaddr_un)\<close>.
\<close>

theorem unaddr_to_sockname_clamps:
  "sizeof_sockaddr_un < addrlen \<Longrightarrow>
   unaddr_to_sockname cr addr addrlen n = unaddr_to_sockname cr addr sizeof_sockaddr_un n"
  by (simp add: unaddr_to_sockname_def)

theorem unaddr_to_sockname_clamps_witness:
  "sizeof_sockaddr_un < 200 \<and>
   unaddr_to_sockname example_crypto (addr_x_garbage @ replicate 193 7) 200 65 =
     unaddr_to_sockname example_crypto (addr_x_garbage @ replicate 193 7) sizeof_sockaddr_un 65 \<and>
   unaddr_to_sockname example_crypto (addr_x_garbage @ replicate 193 7) 200 65 =
     Inr ''2f78000000000000000000000000000000000000000000000000000000000000''"
proof -
  have h: "sizeof_sockaddr_un < 200"
    by (simp add: sizeof_sockaddr_un_def)
  have v: "unaddr_to_sockname example_crypto (addr_x_garbage @ replicate 193 7)
             sizeof_sockaddr_un 65 =
           Inr ''2f78000000000000000000000000000000000000000000000000000000000000''"
    by code_simp
  show ?thesis
    using h v
      unaddr_to_sockname_clamps [OF h, of example_crypto "addr_x_garbage @ replicate 193 7" 65]
    by simp
qed

subsection \<open>Connecting a socket that is not new\<close>

text \<open>
  Claim C3. On a socket whose state is not \<open>SOCK_NEW\<close> (bound, connected or listening),
  \<^verbatim>\<open>connect\<close>, called as its contract demands with the socket lock held, returns
  \<open>EINVAL\<close>, leaves the whole handle as it was (the platform stream field and both
  recorded addresses with it) and calls nothing of the platform: its only event is the
  warning it logs.
\<close>

theorem connect_not_new:
  "lock (info_sock h) = Locked \<Longrightarrow> state (info_sock h) \<noteq> SOCK_NEW \<Longrightarrow>
   connect cr pal h addr addrlen = (Inl (Errno EINVAL), h, [Ev_log_warning])"
  by (simp add: connect_def)

theorem connect_not_new_witness:
  "lock (info_sock (example_handle\<lparr>info_sock := example_sock\<lparr>state := SOCK_BOUND\<rparr>\<rparr>)) = Locked \<and>
   state (info_sock (example_handle\<lparr>info_sock := example_sock\<lparr>state := SOCK_BOUND\<rparr>\<rparr>)) \<noteq> SOCK_NEW \<and>
   connect example_crypto example_pal
       (example_handle\<lparr>info_sock := example_sock\<lparr>state := SOCK_BOUND\<rparr>\<rparr>) addr_x_clean 5 =
     (Inl (Errno EINVAL), example_handle\<lparr>info_sock := example_sock\<lparr>state := SOCK_BOUND\<rparr>\<rparr>,
      [Ev_log_warning])"
proof -
  let ?h = "example_handle\<lparr>info_sock := example_sock\<lparr>state := SOCK_BOUND\<rparr>\<rparr>"
  have l: "lock (info_sock ?h) = Locked"
    by (simp add: example_sock_def)
  have s: "state (info_sock ?h) \<noteq> SOCK_NEW"
    by simp
  show ?thesis
    using l s connect_not_new [OF l s, of example_crypto example_pal addr_x_clean 5]
    by simp
qed

subsection \<open>Sending and receiving across segments\<close>

text \<open>
  Claim C2. Whatever the split of the bytes into segments on either side, \<^verbatim>\<open>send\<close> hands
  the concatenation of its buffers, in order, to the single platform write, and
  \<^verbatim>\<open>recv\<close> lays the bytes of the single platform read out over its buffers in order,
  filling each buffer before the next and leaving the rest as it was. So when the
  platform stream takes the whole write and delivers these bytes to the read (the
  destination having room for them, and the temporary buffers being allocated), the
  bytes received are the bytes sent, in the same order.
\<close>

theorem send_recv_roundtrip:
  assumes "type (info_sock hs) \<noteq> SOCK_DGRAM" and "pal_handle (info_sock hs) = Some ps"
    and "type (info_sock hr) \<noteq> SOCK_DGRAM" and "pal_handle (info_sock hr) = Some pr"
    and "nb \<longrightarrow> flags hr AND O_NONBLOCK \<noteq> 0"
    and "concat iov_s = data"
    and "length data \<le> length (concat iov_r)"
    and "length iov_s \<noteq> 1 \<longrightarrow> malloc pal (length data) \<noteq> None"
    and "length iov_r \<noteq> 1 \<longrightarrow> malloc pal (length (concat iov_r)) \<noteq> None"
    and "DkStreamWrite pal ps data = Inr (length data)"
    and "DkStreamRead pal pr (length (concat iov_r)) = Inr data"
  shows "send pal hs iov_s = (Inr (length data), [Ev_DkStreamWrite ps data]) \<and>
         (\<exists>bufs. fst (recv pal hr iov_r nb) = Inr (length data, bufs) \<and>
                 map length bufs = map length iov_r \<and>
                 take (length data) (concat bufs) = data \<and>
                 drop (length data) (concat bufs) = drop (length data) (concat iov_r))"
proof -
  have s: "send pal hs iov_s = (Inr (length data), [Ev_DkStreamWrite ps data])"
    using send_connected [of hs ps iov_s pal] assms(1,2,6,8,10) by simp
  obtain bufs where r: "fst (recv pal hr iov_r nb) = Inr (length data, bufs)"
      and l: "map length bufs = map length iov_r"
      and c: "concat bufs = data @ drop (length data) (concat iov_r)"
    using recv_connected [OF assms(3,4,5,9,11,7)] by auto
  from c have "take (length data) (concat bufs) = data"
    and "drop (length data) (concat bufs) = drop (length data) (concat iov_r)"
    by simp_all
  with s r l show ?thesis
    by blast
qed

theorem send_recv_roundtrip_witness:
  "type (info_sock connected_handle) \<noteq> SOCK_DGRAM \<and>
   pal_handle (info_sock connected_handle) = Some 3 \<and>
   concat [[104, 101], [], [108, 108, 111]] = [104, 101, 108, 108, 111 :: byte] \<and>
   length [104, 101, 108, 108, 111 :: byte] \<le> length (concat [[0, 0, 0], [0], [0, 0, 0 :: byte]]) \<and>
   DkStreamWrite example_pal 3 [104, 101, 108, 108, 111] = Inr (length [104, 101, 108, 108, 111 :: byte]) \<and>
   DkStreamRead example_pal 3 (length (concat [[0, 0, 0], [0], [0, 0, 0 :: byte]])) =
     Inr [104, 101, 108, 108, 111] \<and>
   send example_pal connected_handle [[104, 101], [], [108, 108, 111]] =
     (Inr (length [104, 101, 108, 108, 111 :: byte]), [Ev_DkStreamWrite 3 [104, 101, 108, 108, 111]]) \<and>
   fst (recv example_pal connected_handle [[0, 0, 0], [0], [0, 0, 0]] False) =
     Inr (5, [[104, 101, 108], [108], [111, 0, 0]])"
proof -
  let ?d = "[104, 101, 108, 108, 111 :: byte]"
  let ?s = "[[104, 101], [], [108, 108, 111 :: byte]]"
  let ?r = "[[0, 0, 0], [0], [0, 0, 0 :: byte]]"
  have h1: "type (info_sock connected_handle) \<noteq> SOCK_DGRAM"
    by (simp add: connected_handle_def example_sock_def SOCK_STREAM_def SOCK_DGRAM_def)
  have h2: "pal_handle (info_sock connected_handle) = Some 3"
    by (simp add: connected_handle_def)
  have h5: "False \<longrightarrow> flags connected_handle AND O_NONBLOCK \<noteq> 0"
    by simp
  have h6: "concat ?s = ?d"
    by simp
  have h7: "length ?d \<le> length (concat ?r)"
    by simp
  have h8: "length ?s \<noteq> 1 \<longrightarrow> malloc example_pal (length ?d) \<noteq> None"
    by (simp add: example_pal_def)
  have h9: "length ?r \<noteq> 1 \<longrightarrow> malloc example_pal (length (concat ?r)) \<noteq> None"
    by (simp add: example_pal_def)
  have h10: "DkStreamWrite example_pal 3 ?d = Inr (length ?d)"
    by (simp add: example_pal_def)
  have h11: "DkStreamRead example_pal 3 (length (concat ?r)) = Inr ?d"
    by (simp add: example_pal_def)
  have v: "fst (recv example_pal connected_handle ?r False) =
     Inr (5, [[104, 101, 108], [108], [111, 0, 0]])"
    by code_simp
  from send_recv_roundtrip [OF h1 h2 h1 h2 h5 h6 h7 h8 h9 h10 h11]
  have "send example_pal connected_handle ?s = (Inr (length ?d), [Ev_DkStreamWrite 3 ?d])"
    by blast
  with h1 h2 h6 h7 h10 h11 v show ?thesis
    by blast
qed

subsection \<open>Transfers of total length zero\<close>

text \<open>
  Claim C9, amended. The backend has no shortcut for an empty transfer. On a connected
  stream socket, a \<^verbatim>\<open>send\<close> whose buffers have total length zero still makes its one
  platform write, with an empty buffer, and returns what that call returns: the count
  zero on success, the translated error otherwise. A \<^verbatim>\<open>recv\<close> whose buffers have total
  length zero is rejected with \<open>EINVAL\<close>, before any platform call, when it asks for
  nonblocking mode and the flags of the handle lack \<open>O_NONBLOCK\<close>, as a \<^verbatim>\<open>recv\<close> of any
  length is; otherwise it makes its one platform read, of size zero, and returns what
  that call returns: the count zero with the buffers as they were on success, the
  translated error otherwise. In both, when the array does not have exactly one segment,
  the temporary buffer of size zero is allocated before the platform call, and \<open>ENOMEM\<close>
  is returned without a platform call if that fails. The counterexample is a \<^verbatim>\<open>send\<close>
  and a \<^verbatim>\<open>recv\<close> of one empty buffer: both return zero, and both have called the
  platform.
\<close>

theorem zero_length_transfer:
  assumes "type (info_sock h) \<noteq> SOCK_DGRAM" and "pal_handle (info_sock h) = Some ph"
    and "length (concat iov) = 0"
  shows "(length iov = 1 \<or> malloc pal 0 \<noteq> None \<longrightarrow>
            send pal h iov =
              (case DkStreamWrite pal ph [] of
                 Inl ret \<Rightarrow> Inl (Errno (if ret = PAL_ERROR_TOOLONG then EMSGSIZE
                                         else pal_to_unix_errno pal ret))
               | Inr n \<Rightarrow> Inr 0,
               [Ev_DkStreamWrite ph []])) \<and>
         (length iov \<noteq> 1 \<and> malloc pal 0 = None \<longrightarrow>
            send pal h iov = (Inl (Errno ENOMEM), [])) \<and>
         (nb \<and> flags h AND O_NONBLOCK = 0 \<longrightarrow>
            recv pal h iov nb =
              (Inl (Errno EINVAL), [Ev_lock Handle_lock, Ev_unlock Handle_lock])) \<and>
         (\<not> (nb \<and> flags h AND O_NONBLOCK = 0) \<and> (length iov = 1 \<or> malloc pal 0 \<noteq> None) \<longrightarrow>
            recv pal h iov nb =
              (case DkStreamRead pal ph 0 of
                 Inl ret \<Rightarrow> Inl (Errno (pal_to_unix_errno pal ret))
               | Inr d \<Rightarrow> Inr (0, iov),
               (if nb then [Ev_lock Handle_lock, Ev_unlock Handle_lock] else []) @
               [Ev_DkStreamRead ph 0])) \<and>
         (\<not> (nb \<and> flags h AND O_NONBLOCK = 0) \<and> length iov \<noteq> 1 \<and> malloc pal 0 = None \<longrightarrow>
            recv pal h iov nb =
              (Inl (Errno ENOMEM),
               if nb then [Ev_lock Handle_lock, Ev_unlock Handle_lock] else []))"
proof (intro conjI impI)
  have c: "concat iov = []"
    using assms(3) by simp
  {
    assume a: "length iov = 1 \<or> malloc pal 0 \<noteq> None"
    have m: "length iov \<noteq> 1 \<longrightarrow> malloc pal (length (concat iov)) \<noteq> None"
      unfolding assms(3) using a by auto
    show "send pal h iov =
              (case DkStreamWrite pal ph [] of
                 Inl ret \<Rightarrow> Inl (Errno (if ret = PAL_ERROR_TOOLONG then EMSGSIZE
                                         else pal_to_unix_errno pal ret))
               | Inr n \<Rightarrow> Inr 0,
               [Ev_DkStreamWrite ph []])"
      using send_connected [OF assms(1,2) m] by (simp add: c split: sum.splits)
  }
  {
    assume a: "length iov \<noteq> 1 \<and> malloc pal 0 = None"
    show "send pal h iov = (Inl (Errno ENOMEM), [])"
      using assms(1,2) a by (simp add: send_def iov_size_concat c)
  }
  {
    assume a: "nb \<and> flags h AND O_NONBLOCK = 0"
    show "recv pal h iov nb =
            (Inl (Errno EINVAL), [Ev_lock Handle_lock, Ev_unlock Handle_lock])"
      using assms(1,2) a by (simp add: recv_def)
  }
  {
    assume a: "\<not> (nb \<and> flags h AND O_NONBLOCK = 0) \<and> (length iov = 1 \<or> malloc pal 0 \<noteq> None)"
    then have g: "nb \<longrightarrow> flags h AND O_NONBLOCK \<noteq> 0"
      by blast
    have m: "length iov \<noteq> 1 \<longrightarrow> malloc pal (length (concat iov)) \<noteq> None"
      unfolding assms(3) using a by auto
    show "recv pal h iov nb =
              (case DkStreamRead pal ph 0 of
                 Inl ret \<Rightarrow> Inl (Errno (pal_to_unix_errno pal ret))
               | Inr d \<Rightarrow> Inr (0, iov),
               (if nb then [Ev_lock Handle_lock, Ev_unlock Handle_lock] else []) @
               [Ev_DkStreamRead ph 0])"
    proof (cases "DkStreamRead pal ph 0")
      case (Inl e)
      then show ?thesis
        using recv_failed [OF assms(1,2) g m, of e] by (simp add: c)
    next
      case (Inr d)
      show ?thesis
      proof (cases "length iov = 1")
        case True
        then obtain b where b: "iov = [b]"
          by (cases iov) auto
        with c have "b = []" by simp
        then show ?thesis
          using assms(1,2) g b Inr by (simp add: recv_def stream_read_def memcpy_def)
      next
        case False
        then obtain f where "malloc pal 0 = Some f"
          using a by auto
        then show ?thesis
          using assms(1,2) g False Inr
          by (simp add: recv_def stream_read_def iov_size_concat scatter_nothing c)
      qed
    qed
  }
  {
    assume a: "\<not> (nb \<and> flags h AND O_NONBLOCK = 0) \<and> length iov \<noteq> 1 \<and> malloc pal 0 = None"
    then have g: "nb \<longrightarrow> flags h AND O_NONBLOCK \<noteq> 0"
      by blast
    show "recv pal h iov nb =
              (Inl (Errno ENOMEM),
               if nb then [Ev_lock Handle_lock, Ev_unlock Handle_lock] else [])"
      using assms(1,2) g a by (simp add: recv_def iov_size_concat c)
  }
qed

theorem zero_length_transfer_counterexample:
  "\<not> (fst (send example_pal connected_handle [[]]) = Inr 0 \<and>
      Ev_DkStreamWrite 3 [] \<notin> set (snd (send example_pal connected_handle [[]]))) \<and>
   \<not> (fst (recv example_pal connected_handle [[]] False) = Inr (0, [[]]) \<and>
      Ev_DkStreamRead 3 0 \<notin> set (snd (recv example_pal connected_handle [[]] False)))"
proof -
  have s: "send example_pal connected_handle [[]] = (Inr 0, [Ev_DkStreamWrite 3 []])"
    by code_simp
  have r: "recv example_pal connected_handle [[]] False = (Inr (0, [[]]), [Ev_DkStreamRead 3 0])"
    by code_simp
  show ?thesis
    by (simp add: s r)
qed

theorem zero_length_transfer_witness:
  "type (info_sock connected_handle) \<noteq> SOCK_DGRAM \<and>
   pal_handle (info_sock connected_handle) = Some 3 \<and>
   length (concat [[], [] :: byte list]) = 0 \<and>
   send (failing_pal PAL_ERROR_TOOLONG) connected_handle [[], []] =
     (Inl (Errno EMSGSIZE), [Ev_DkStreamWrite 3 []]) \<and>
   recv (failing_pal PAL_ERROR_TOOLONG) connected_handle [[], []] False =
     (Inl (Errno (E_OTHER 5)), [Ev_DkStreamRead 3 0]) \<and>
   flags connected_handle AND O_NONBLOCK = 0 \<and>
   recv (failing_pal PAL_ERROR_TOOLONG) connected_handle [[], []] True =
     (Inl (Errno EINVAL), [Ev_lock Handle_lock, Ev_unlock Handle_lock])"
proof -
  let ?pal = "failing_pal PAL_ERROR_TOOLONG"
  have h1: "type (info_sock connected_handle) \<noteq> SOCK_DGRAM"
    by (simp add: connected_handle_def example_sock_def SOCK_STREAM_def SOCK_DGRAM_def)
  have h2: "pal_handle (info_sock connected_handle) = Some 3"
    by (simp add: connected_handle_def)
  have h3: "length (concat [[], [] :: byte list]) = 0"
    by simp
  have f: "flags connected_handle AND O_NONBLOCK = 0"
    by (simp add: connected_handle_def example_handle_def O_NONBLOCK_def)
  have m: "length [[], [] :: byte list] = 1 \<or> malloc ?pal 0 \<noteq> None"
    by (simp add: failing_pal_def example_pal_def)
  have w: "DkStreamWrite ?pal 3 [] = Inl PAL_ERROR_TOOLONG"
    and r: "DkStreamRead ?pal 3 0 = Inl PAL_ERROR_TOOLONG"
    and t: "pal_to_unix_errno ?pal PAL_ERROR_TOOLONG = E_OTHER 5"
    by (simp_all add: failing_pal_def example_pal_def)
  note blocking = zero_length_transfer [OF h1 h2 h3, of ?pal False]
  note nonblocking = zero_length_transfer [OF h1 h2 h3, of ?pal True]
  have s: "send ?pal connected_handle [[], []] = (Inl (Errno EMSGSIZE), [Ev_DkStreamWrite 3 []])"
    using blocking m by (simp add: w)
  have b: "recv ?pal connected_handle [[], []] False =
             (Inl (Errno (E_OTHER 5)), [Ev_DkStreamRead 3 0])"
    using blocking m by (simp add: r t)
  have n: "recv ?pal connected_handle [[], []] True =
             (Inl (Errno EINVAL), [Ev_lock Handle_lock, Ev_unlock Handle_lock])"
    using nonblocking f by blast
  show ?thesis
    using h1 h2 h3 s b f n by blast
qed

subsection \<open>Receiving without blocking\<close>

text \<open>
  Claim C7. On a stream socket with a platform stream whose open flags lack
  \<open>O_NONBLOCK\<close>, a \<^verbatim>\<open>recv\<close> that asks for nonblocking mode returns \<open>EINVAL\<close> and has only
  taken and released the handle lock: no platform read or write. A nonblocking \<^verbatim>\<open>recv\<close>
  reaches the platform read only when the flags of the handle have \<open>O_NONBLOCK\<close>.
\<close>

theorem recv_nonblocking_gate:
  assumes "type (info_sock h) \<noteq> SOCK_DGRAM" and "pal_handle (info_sock h) = Some ph"
  shows "(flags h AND O_NONBLOCK = 0 \<longrightarrow>
            recv pal h iov True = (Inl (Errno EINVAL), [Ev_lock Handle_lock, Ev_unlock Handle_lock])) \<and>
         (Ev_DkStreamRead ph n \<in> set (snd (recv pal h iov True)) \<longrightarrow>
            flags h AND O_NONBLOCK \<noteq> 0)"
  using assms by (auto simp: recv_def)

theorem recv_nonblocking_gate_witness:
  "type (info_sock connected_handle) \<noteq> SOCK_DGRAM \<and>
   pal_handle (info_sock connected_handle) = Some 3 \<and>
   flags connected_handle AND O_NONBLOCK = 0 \<and>
   recv example_pal connected_handle [[0, 0], [0]] True =
     (Inl (Errno EINVAL), [Ev_lock Handle_lock, Ev_unlock Handle_lock]) \<and>
   flags (connected_handle\<lparr>flags := O_NONBLOCK\<rparr>) AND O_NONBLOCK \<noteq> 0 \<and>
   recv example_pal (connected_handle\<lparr>flags := O_NONBLOCK\<rparr>) [[0, 0], [0]] True =
     (Inr (3, [[104, 101], [108]]),
      [Ev_lock Handle_lock, Ev_unlock Handle_lock, Ev_DkStreamRead 3 3])"
proof -
  have h1: "type (info_sock connected_handle) \<noteq> SOCK_DGRAM"
    by (simp add: connected_handle_def example_sock_def SOCK_STREAM_def SOCK_DGRAM_def)
  have h2: "pal_handle (info_sock connected_handle) = Some 3"
    by (simp add: connected_handle_def)
  have f: "flags connected_handle AND O_NONBLOCK = 0"
    by (simp add: connected_handle_def example_handle_def O_NONBLOCK_def)
  have g: "flags (connected_handle\<lparr>flags := O_NONBLOCK\<rparr>) AND O_NONBLOCK \<noteq> 0"
    by (simp add: O_NONBLOCK_def)
  have v: "recv example_pal (connected_handle\<lparr>flags := O_NONBLOCK\<rparr>) [[0, 0], [0]] True =
     (Inr (3, [[104, 101], [108]]),
      [Ev_lock Handle_lock, Ev_unlock Handle_lock, Ev_DkStreamRead 3 3])"
    by code_simp
  from recv_nonblocking_gate [OF h1 h2, of example_pal "[[0, 0], [0]]"] f
  have "recv example_pal connected_handle [[0, 0], [0]] True =
     (Inl (Errno EINVAL), [Ev_lock Handle_lock, Ev_unlock Handle_lock])"
    by blast
  with h1 h2 f g v show ?thesis
    by blast
qed

subsection \<open>Platform errors\<close>

text \<open>
  Claim C8. Whatever error the platform primitive returns, the operation returns an
  error number and never stops the process: \<^verbatim>\<open>bind\<close> turns \<open>PAL_ERROR_STREAMEXIST\<close> into
  \<open>EADDRINUSE\<close>, \<^verbatim>\<open>connect\<close> turns \<open>PAL_ERROR_CONNFAILED\<close> into \<open>ENOENT\<close>, \<^verbatim>\<open>send\<close> turns
  \<open>PAL_ERROR_TOOLONG\<close> into \<open>EMSGSIZE\<close>, and every other error of these three, and every
  error of \<^verbatim>\<open>recv\<close> and \<^verbatim>\<open>accept\<close>, goes through \<^verbatim>\<open>pal_to_unix_errno\<close>.
\<close>

theorem platform_errors_translated:
  "(lock (info_sock h) = Locked \<and>
    unaddr_to_sockname cr addr addrlen 65 = Inr name \<and>
    DkStreamOpen pal (URI_PREFIX_PIPE_SRV @ name) (nonblock_options h) = Inl e \<longrightarrow>
      fst (bind_unix cr pal h addr addrlen) =
        Inl (Errno (if e = PAL_ERROR_STREAMEXIST then EADDRINUSE else pal_to_unix_errno pal e))) \<and>
   (lock (info_sock h) = Locked \<and> state (info_sock h) = SOCK_NEW \<and>
    unaddr_to_sockname cr addr addrlen 65 = Inr name \<and>
    DkStreamOpen pal (URI_PREFIX_PIPE @ name) (nonblock_options h) = Inl e \<longrightarrow>
      fst (connect cr pal h addr addrlen) =
        Inl (Errno (if e = PAL_ERROR_CONNFAILED then ENOENT else pal_to_unix_errno pal e))) \<and>
   (type (info_sock h) \<noteq> SOCK_DGRAM \<and> pal_handle (info_sock h) = Some ph \<and>
    (length iov \<noteq> 1 \<longrightarrow> malloc pal (length (concat iov)) \<noteq> None) \<and>
    DkStreamWrite pal ph (concat iov) = Inl e \<longrightarrow>
      fst (send pal h iov) =
        Inl (Errno (if e = PAL_ERROR_TOOLONG then EMSGSIZE else pal_to_unix_errno pal e))) \<and>
   (type (info_sock h) \<noteq> SOCK_DGRAM \<and> pal_handle (info_sock h) = Some ph \<and>
    (nb \<longrightarrow> flags h AND O_NONBLOCK \<noteq> 0) \<and>
    (length iov \<noteq> 1 \<longrightarrow> malloc pal (length (concat iov)) \<noteq> None) \<and>
    DkStreamRead pal ph (length (concat iov)) = Inl e \<longrightarrow>
      fst (recv pal h iov nb) = Inl (Errno (pal_to_unix_errno pal e))) \<and>
   (pal_handle (info_sock h) = Some ph \<and>
    DkStreamWaitForClient pal ph (if nb then PAL_OPTION_NONBLOCK else 0) = Inl e \<longrightarrow>
      fst (accept pal h nb) = Inl (Errno (pal_to_unix_errno pal e)))"
proof (intro conjI impI)
  assume "lock (info_sock h) = Locked \<and>
    unaddr_to_sockname cr addr addrlen 65 = Inr name \<and>
    DkStreamOpen pal (URI_PREFIX_PIPE_SRV @ name) (nonblock_options h) = Inl e"
  then show "fst (bind_unix cr pal h addr addrlen) =
        Inl (Errno (if e = PAL_ERROR_STREAMEXIST then EADDRINUSE else pal_to_unix_errno pal e))"
    by (simp add: bind_unix_def)
next
  assume "lock (info_sock h) = Locked \<and> state (info_sock h) = SOCK_NEW \<and>
    unaddr_to_sockname cr addr addrlen 65 = Inr name \<and>
    DkStreamOpen pal (URI_PREFIX_PIPE @ name) (nonblock_options h) = Inl e"
  then show "fst (connect cr pal h addr addrlen) =
        Inl (Errno (if e = PAL_ERROR_CONNFAILED then ENOENT else pal_to_unix_errno pal e))"
    by (simp add: connect_def)
next
  assume a: "type (info_sock h) \<noteq> SOCK_DGRAM \<and> pal_handle (info_sock h) = Some ph \<and>
    (length iov \<noteq> 1 \<longrightarrow> malloc pal (length (concat iov)) \<noteq> None) \<and>
    DkStreamWrite pal ph (concat iov) = Inl e"
  then have "send pal h iov =
    (case DkStreamWrite pal ph (concat iov) of
       Inl ret \<Rightarrow> Inl (Errno (if ret = PAL_ERROR_TOOLONG then EMSGSIZE else pal_to_unix_errno pal ret))
     | Inr n \<Rightarrow> Inr (min n (length (concat iov))),
     [Ev_DkStreamWrite ph (concat iov)])"
    by (intro send_connected) simp_all
  with a show "fst (send pal h iov) =
        Inl (Errno (if e = PAL_ERROR_TOOLONG then EMSGSIZE else pal_to_unix_errno pal e))"
    by simp
next
  assume a: "type (info_sock h) \<noteq> SOCK_DGRAM \<and> pal_handle (info_sock h) = Some ph \<and>
    (nb \<longrightarrow> flags h AND O_NONBLOCK \<noteq> 0) \<and>
    (length iov \<noteq> 1 \<longrightarrow> malloc pal (length (concat iov)) \<noteq> None) \<and>
    DkStreamRead pal ph (length (concat iov)) = Inl e"
  then have "recv pal h iov nb =
           (Inl (Errno (pal_to_unix_errno pal e)),
            (if nb then [Ev_lock Handle_lock, Ev_unlock Handle_lock] else []) @
            [Ev_DkStreamRead ph (length (concat iov))])"
    by (intro recv_failed) simp_all
  then show "fst (recv pal h iov nb) = Inl (Errno (pal_to_unix_errno pal e))"
    by simp
next
  assume "pal_handle (info_sock h) = Some ph \<and>
    DkStreamWaitForClient pal ph (if nb then PAL_OPTION_NONBLOCK else 0) = Inl e"
  then show "fst (accept pal h nb) = Inl (Errno (pal_to_unix_errno pal e))"
    by (simp add: accept_def)
qed

theorem platform_errors_translated_witness:
  "fst (bind_unix example_crypto (failing_pal PAL_ERROR_STREAMEXIST) example_handle addr_x_clean 5) =
     Inl (Errno EADDRINUSE) \<and>
   fst (connect example_crypto (failing_pal PAL_ERROR_STREAMEXIST) example_handle addr_x_clean 5) =
     Inl (Errno (E_OTHER 5)) \<and>
   fst (send (failing_pal PAL_ERROR_STREAMEXIST) connected_handle [[1], [2, 3]]) =
     Inl (Errno (E_OTHER 5)) \<and>
   fst (recv (failing_pal PAL_ERROR_STREAMEXIST) connected_handle [[1], [2, 3]] False) =
     Inl (Errno (E_OTHER 5)) \<and>
   fst (accept (failing_pal PAL_ERROR_STREAMEXIST) connected_handle False) =
     Inl (Errno (E_OTHER 5))"
proof -
  let ?pal = "failing_pal PAL_ERROR_STREAMEXIST"
  let ?name = "''2f78000000000000000000000000000000000000000000000000000000000000''"
  have l: "lock (info_sock example_handle) = Locked"
    and st: "state (info_sock example_handle) = SOCK_NEW"
    by (simp_all add: example_handle_def example_sock_def)
  have n: "unaddr_to_sockname example_crypto addr_x_clean 5 65 = Inr ?name"
    by code_simp
  have o: "DkStreamOpen ?pal (URI_PREFIX_PIPE_SRV @ ?name) (nonblock_options example_handle) =
             Inl PAL_ERROR_STREAMEXIST"
    and o': "DkStreamOpen ?pal (URI_PREFIX_PIPE @ ?name) (nonblock_options example_handle) =
             Inl PAL_ERROR_STREAMEXIST"
    and w: "DkStreamWrite ?pal 3 (concat [[1], [2, 3]]) = Inl PAL_ERROR_STREAMEXIST"
    and r: "DkStreamRead ?pal 3 (length (concat [[1], [2, 3 :: byte]])) = Inl PAL_ERROR_STREAMEXIST"
    and a: "DkStreamWaitForClient ?pal 3 (if False then PAL_OPTION_NONBLOCK else 0) =
             Inl PAL_ERROR_STREAMEXIST"
    and m: "length [[1], [2, 3 :: byte]] \<noteq> 1 \<longrightarrow>
             malloc ?pal (length (concat [[1], [2, 3 :: byte]])) \<noteq> None"
    and t: "pal_to_unix_errno ?pal PAL_ERROR_STREAMEXIST = E_OTHER 5"
    by (simp_all add: failing_pal_def example_pal_def)
  have c1: "type (info_sock connected_handle) \<noteq> SOCK_DGRAM"
    by (simp add: connected_handle_def example_sock_def SOCK_STREAM_def SOCK_DGRAM_def)
  have c2: "pal_handle (info_sock connected_handle) = Some 3"
    by (simp add: connected_handle_def)
  note inst = platform_errors_translated [where e = PAL_ERROR_STREAMEXIST and pal = ?pal
      and cr = example_crypto and addr = addr_x_clean and addrlen = 5 and name = ?name
      and iov = "[[1], [2, 3]]" and nb = False and ph = 3]
  have "fst (bind_unix example_crypto ?pal example_handle addr_x_clean 5) = Inl (Errno EADDRINUSE)"
    using inst [where h = example_handle] l n o by simp
  moreover
  have "fst (connect example_crypto ?pal example_handle addr_x_clean 5) = Inl (Errno (E_OTHER 5))"
    using inst [where h = example_handle] l st n o' t by simp
  moreover
  have "fst (send ?pal connected_handle [[1], [2, 3]]) = Inl (Errno (E_OTHER 5))"
    using inst [where h = connected_handle] c1 c2 w m t by simp
  moreover
  have "fst (recv ?pal connected_handle [[1], [2, 3]] False) = Inl (Errno (E_OTHER 5))"
    using inst [where h = connected_handle] c1 c2 r m t by simp
  moreover
  have "fst (accept ?pal connected_handle False) = Inl (Errno (E_OTHER 5))"
    using inst [where h = connected_handle] c2 a t by simp
  ultimately show ?thesis
    by blast
qed

subsection \<open>Normalising a recorded address\<close>

text \<open>
  Claim C4. For a valid address in a \<^verbatim>\<open>struct sockaddr_storage\<close> (the declared length
  above the offset of the path and at most \<^verbatim>\<open>sizeof(struct sockaddr_un)\<close>),
  \<^verbatim>\<open>fixup_sockaddr_un_path\<close> leaves an abstract address, buffer and length, as it is. For a
  pathname address the buffer becomes the family, the path up to its first null byte
  within the declared length, and null bytes up to the end of the storage; the length
  becomes the offset of the path plus the length of the truncated path plus one.
\<close>

theorem fixup_sockaddr_un_path_normalises:
  assumes "length ss_addr = sizeof_sockaddr_storage"
    and "offsetof_sun_path < addrlen" and "addrlen \<le> sizeof_sockaddr_un"
  shows "(sun_path ss_addr ! 0 = 0 \<longrightarrow>
            fixup_sockaddr_un_path ss_addr addrlen = Inr (ss_addr, addrlen)) \<and>
         (sun_path ss_addr ! 0 \<noteq> 0 \<longrightarrow>
            fixup_sockaddr_un_path ss_addr addrlen =
              Inr (take offsetof_sun_path ss_addr @
                   takeWhile (\<lambda>b. b \<noteq> 0) (take (addrlen - offsetof_sun_path) (sun_path ss_addr)) @
                   replicate (sizeof_sockaddr_storage - offsetof_sun_path -
                      length (takeWhile (\<lambda>b. b \<noteq> 0)
                                (take (addrlen - offsetof_sun_path) (sun_path ss_addr)))) 0,
                   offsetof_sun_path +
                   length (takeWhile (\<lambda>b. b \<noteq> 0)
                             (take (addrlen - offsetof_sun_path) (sun_path ss_addr))) + 1))"
proof (intro conjI impI)
  assume "sun_path ss_addr ! 0 = 0"
  then show "fixup_sockaddr_un_path ss_addr addrlen = Inr (ss_addr, addrlen)"
    using assms
    by (simp add: fixup_sockaddr_un_path_def Let_def sizeof_sockaddr_un_def
        sizeof_sockaddr_storage_def offsetof_sun_path_def)
next
  assume nz: "sun_path ss_addr ! 0 \<noteq> 0"
  let ?k = "addrlen - offsetof_sun_path"
  let ?n = "strnlen (sun_path ss_addr) ?k"
  let ?p = "takeWhile (\<lambda>b. b \<noteq> 0) (take ?k (sun_path ss_addr))"
  have n: "?n = length ?p"
    by (simp add: strnlen_def)
  have le: "?n \<le> ?k"
    by (rule strnlen_le)
  have k: "1 \<le> ?k" and k': "?k \<le> 108"
    using assms by (simp_all add: sizeof_sockaddr_un_def offsetof_sun_path_def)
  have b: "?n < 126"
    using le k' by arith
  have tk: "take (offsetof_sun_path + ?n) ss_addr = take offsetof_sun_path ss_addr @ ?p"
    using take_strnlen [of "sun_path ss_addr" ?k] by (simp add: take_add sun_path_def)
  have ms: "memset_at ss_addr (offsetof_sun_path + ?n) 0
              (sizeof_sockaddr_storage - offsetof_sun_path - ?n) =
            take offsetof_sun_path ss_addr @ ?p @
            replicate (sizeof_sockaddr_storage - offsetof_sun_path - ?n) 0"
    using assms b tk
    by (simp add: memset_at_def sizeof_sockaddr_un_def sizeof_sockaddr_storage_def
        offsetof_sun_path_def)
  have "fixup_sockaddr_un_path ss_addr addrlen =
          Inr (memset_at ss_addr (offsetof_sun_path + ?n) 0
                 (sizeof_sockaddr_storage - offsetof_sun_path - ?n),
               offsetof_sun_path + ?n + 1)"
    using assms nz b k
    by (simp add: fixup_sockaddr_un_path_def Let_def sizeof_sockaddr_un_def
        sizeof_sockaddr_storage_def offsetof_sun_path_def)
  then show "fixup_sockaddr_un_path ss_addr addrlen =
              Inr (take offsetof_sun_path ss_addr @ ?p @
                   replicate (sizeof_sockaddr_storage - offsetof_sun_path - length ?p) 0,
                   offsetof_sun_path + length ?p + 1)"
    using ms n by simp
qed

theorem fixup_sockaddr_un_path_normalises_witness:
  "length (addr_x_garbage @ replicate 121 7) = sizeof_sockaddr_storage \<and>
   offsetof_sun_path < 7 \<and> 7 \<le> sizeof_sockaddr_un \<and>
   sun_path (addr_x_garbage @ replicate 121 7) ! 0 \<noteq> 0 \<and>
   fixup_sockaddr_un_path (addr_x_garbage @ replicate 121 7) 7 =
     Inr ([1, 0, 47, 120] @ replicate 124 0, 5) \<and>
   sun_path (addr_abstract @ replicate 124 7) ! 0 = 0 \<and>
   fixup_sockaddr_un_path (addr_abstract @ replicate 124 7) 4 =
     Inr (addr_abstract @ replicate 124 7, 4)"
proof -
  let ?a = "addr_x_garbage @ replicate 121 7"
  let ?b = "addr_abstract @ replicate 124 7"
  have h1: "length ?a = sizeof_sockaddr_storage"
    and h1': "length ?b = sizeof_sockaddr_storage"
    by (simp_all add: addr_x_garbage_def addr_abstract_def sizeof_sockaddr_storage_def)
  have h2: "offsetof_sun_path < 7" and h2': "offsetof_sun_path < 4"
    by (simp_all add: offsetof_sun_path_def)
  have h3: "7 \<le> sizeof_sockaddr_un" and h3': "4 \<le> sizeof_sockaddr_un"
    by (simp_all add: sizeof_sockaddr_un_def)
  have nz: "sun_path ?a ! 0 \<noteq> 0" and z: "sun_path ?b ! 0 = 0"
    by (simp_all add: sun_path_def offsetof_sun_path_def addr_x_garbage_def addr_abstract_def)
  have p: "takeWhile (\<lambda>b. b \<noteq> 0) (take (7 - offsetof_sun_path) (sun_path ?a)) = [47, 120]"
    by (simp add: sun_path_def offsetof_sun_path_def addr_x_garbage_def)
  have t: "take offsetof_sun_path ?a = [1, 0]"
    by (simp add: offsetof_sun_path_def addr_x_garbage_def)
  have "fixup_sockaddr_un_path ?a 7 =
          Inr (take offsetof_sun_path ?a @
               takeWhile (\<lambda>b. b \<noteq> 0) (take (7 - offsetof_sun_path) (sun_path ?a)) @
               replicate (sizeof_sockaddr_storage - offsetof_sun_path -
                  length (takeWhile (\<lambda>b. b \<noteq> 0) (take (7 - offsetof_sun_path) (sun_path ?a)))) 0,
               offsetof_sun_path +
               length (takeWhile (\<lambda>b. b \<noteq> 0) (take (7 - offsetof_sun_path) (sun_path ?a))) + 1)"
    using fixup_sockaddr_un_path_normalises [OF h1 h2 h3] nz
    by blast
  then have "fixup_sockaddr_un_path ?a 7 =
          Inr ([1, 0] @ [47, 120] @
               replicate (sizeof_sockaddr_storage - offsetof_sun_path - length [47, 120 :: byte]) 0,
               offsetof_sun_path + length [47, 120 :: byte] + 1)"
    unfolding p t .
  then have "fixup_sockaddr_un_path ?a 7 = Inr ([1, 0, 47, 120] @ replicate 124 0, 5)"
    by (simp add: sizeof_sockaddr_storage_def offsetof_sun_path_def)
  moreover have "fixup_sockaddr_un_path ?b 4 = Inr (?b, 4)"
    using fixup_sockaddr_un_path_normalises [OF h1' h2' h3'] z
    by blast
  ultimately show ?thesis
    using h1 h2 h3 nz z by blast
qed

subsection \<open>Equal paths give equal names\<close>

text \<open>
  Claim C1. Two pathname addresses of family \<open>AF_UNIX\<close> that hold the same path \<open>p\<close>
  (not empty, without a null byte, fitting the structure), then a null byte, then any
  bytes, with the null inside both declared lengths, have the same result of
  \<^verbatim>\<open>unaddr_to_sockname\<close>; when the digest primitive does not fail, both calls succeed with
  the hexadecimal digest of \<open>p\<close>. For an abstract address (first path byte null) the
  bytes that are hashed are all the bytes of the path within the declared length (clamped
  to the structure), the leading null included.
\<close>

theorem unaddr_to_sockname_canonical:
  "(sun_family a1 = AF_UNIX \<and> sun_family a2 = AF_UNIX \<and>
    sun_path a1 = p @ 0 # g1 \<and> sun_path a2 = p @ 0 # g2 \<and> p \<noteq> [] \<and> 0 \<notin> set p \<and>
    offsetof_sun_path + length p \<le> sizeof_sockaddr_un \<and>
    offsetof_sun_path + length p < len1 \<and> offsetof_sun_path + length p < len2 \<and> 65 \<le> n \<longrightarrow>
      unaddr_to_sockname cr a1 len1 n = unaddr_to_sockname cr a2 len2 n \<and>
      (\<forall>c0 c1 hash.
         lib_SHA256Init cr = Some c0 \<and> lib_SHA256Update cr c0 p = Some c1 \<and>
         lib_SHA256Final cr c1 = Some hash \<longrightarrow>
           unaddr_to_sockname cr a1 len1 n = Inr (BYTES2HEXSTR hash) \<and>
           unaddr_to_sockname cr a2 len2 n = Inr (BYTES2HEXSTR hash))) \<and>
   (sun_family a = AF_UNIX \<and> sun_path a ! 0 = 0 \<and> offsetof_sun_path < len \<and> 65 \<le> n \<longrightarrow>
      (\<forall>c0 c1 hash.
         lib_SHA256Init cr = Some c0 \<and>
         lib_SHA256Update cr c0
           (take (min len sizeof_sockaddr_un - offsetof_sun_path) (sun_path a)) = Some c1 \<and>
         lib_SHA256Final cr c1 = Some hash \<longrightarrow>
           unaddr_to_sockname cr a len n = Inr (BYTES2HEXSTR hash)))"
proof (intro conjI impI allI)
  assume h: "sun_family a1 = AF_UNIX \<and> sun_family a2 = AF_UNIX \<and>
    sun_path a1 = p @ 0 # g1 \<and> sun_path a2 = p @ 0 # g2 \<and> p \<noteq> [] \<and> 0 \<notin> set p \<and>
    offsetof_sun_path + length p \<le> sizeof_sockaddr_un \<and>
    offsetof_sun_path + length p < len1 \<and> offsetof_sun_path + length p < len2 \<and> 65 \<le> n"
  note e1 = unaddr_to_sockname_pathname [of a1 p g1 len1 n cr]
  note e2 = unaddr_to_sockname_pathname [of a2 p g2 len2 n cr]
  show "unaddr_to_sockname cr a1 len1 n = unaddr_to_sockname cr a2 len2 n"
    using h e1 e2 by simp
  fix c0 c1 hash
  assume d: "lib_SHA256Init cr = Some c0 \<and> lib_SHA256Update cr c0 p = Some c1 \<and>
         lib_SHA256Final cr c1 = Some hash"
  show "unaddr_to_sockname cr a1 len1 n = Inr (BYTES2HEXSTR hash)"
    using h d e1 by simp
  show "unaddr_to_sockname cr a2 len2 n = Inr (BYTES2HEXSTR hash)"
    using h d e2 by simp
next
  fix c0 c1 hash
  assume h: "sun_family a = AF_UNIX \<and> sun_path a ! 0 = 0 \<and> offsetof_sun_path < len \<and> 65 \<le> n"
    and d: "lib_SHA256Init cr = Some c0 \<and>
         lib_SHA256Update cr c0
           (take (min len sizeof_sockaddr_un - offsetof_sun_path) (sun_path a)) = Some c1 \<and>
         lib_SHA256Final cr c1 = Some hash"
  show "unaddr_to_sockname cr a len n = Inr (BYTES2HEXSTR hash)"
    using h d unaddr_to_sockname_valid [of a len n cr] by simp
qed

theorem unaddr_to_sockname_canonical_witness:
  "sun_family addr_x_garbage = AF_UNIX \<and> sun_family addr_x_clean = AF_UNIX \<and>
   sun_path addr_x_garbage = [47, 120] @ 0 # [33, 34] \<and>
   sun_path addr_x_clean = [47, 120] @ 0 # [] \<and>
   unaddr_to_sockname example_crypto addr_x_garbage 7 65 =
     Inr ''2f78000000000000000000000000000000000000000000000000000000000000'' \<and>
   unaddr_to_sockname example_crypto addr_x_clean 5 65 =
     Inr ''2f78000000000000000000000000000000000000000000000000000000000000'' \<and>
   sun_family addr_abstract = AF_UNIX \<and> sun_path addr_abstract ! 0 = 0 \<and>
   unaddr_to_sockname example_crypto addr_abstract 4 65 =
     Inr ''0061000000000000000000000000000000000000000000000000000000000000''"
proof -
  let ?p = "[47, 120 :: byte]"
  let ?h = "?p @ replicate 30 0"
  let ?h' = "[0, 97 :: byte] @ replicate 30 0"
  have f: "sun_family addr_x_garbage = AF_UNIX" "sun_family addr_x_clean = AF_UNIX"
    "sun_family addr_abstract = AF_UNIX"
    by (simp_all add: sun_family_def AF_UNIX_def addr_x_garbage_def addr_x_clean_def
        addr_abstract_def)
  have s: "sun_path addr_x_garbage = ?p @ 0 # [33, 34]" "sun_path addr_x_clean = ?p @ 0 # []"
    and z: "sun_path addr_abstract ! 0 = 0"
    and t: "take (min 4 sizeof_sockaddr_un - offsetof_sun_path) (sun_path addr_abstract) = [0, 97]"
    by (simp_all add: sun_path_def offsetof_sun_path_def sizeof_sockaddr_un_def
        addr_x_garbage_def addr_x_clean_def addr_abstract_def)
  have l: "offsetof_sun_path + length ?p \<le> sizeof_sockaddr_un"
    "offsetof_sun_path + length ?p < 7" "offsetof_sun_path + length ?p < 5"
    "offsetof_sun_path < 4"
    by (simp_all add: offsetof_sun_path_def sizeof_sockaddr_un_def)
  have d: "lib_SHA256Init example_crypto = Some []"
    "lib_SHA256Update example_crypto [] ?p = Some ?p"
    "lib_SHA256Final example_crypto ?p = Some ?h"
    "lib_SHA256Update example_crypto [] [0, 97] = Some [0, 97]"
    "lib_SHA256Final example_crypto [0, 97] = Some ?h'"
    by (simp_all add: example_crypto_def)
  have x: "BYTES2HEXSTR ?h = ''2f78000000000000000000000000000000000000000000000000000000000000''"
    "BYTES2HEXSTR ?h' = ''0061000000000000000000000000000000000000000000000000000000000000''"
    by code_simp+
  note inst = unaddr_to_sockname_canonical [where cr = example_crypto and n = 65
      and ?a1.0 = addr_x_garbage and ?a2.0 = addr_x_clean and p = ?p and ?g1.0 = "[33, 34]"
      and ?g2.0 = "[]" and ?len1.0 = 7 and ?len2.0 = 5 and a = addr_abstract and len = 4]
  have p1: "unaddr_to_sockname example_crypto addr_x_garbage 7 65 = Inr (BYTES2HEXSTR ?h) \<and>
            unaddr_to_sockname example_crypto addr_x_clean 5 65 = Inr (BYTES2HEXSTR ?h)"
    using inst f s l d(1,2,3) by auto
  have p2: "unaddr_to_sockname example_crypto addr_abstract 4 65 = Inr (BYTES2HEXSTR ?h')"
    using inst f(3) z l(4) d(1,4,5) unfolding t by auto
  show ?thesis
    using f s z p1 p2 unfolding x by blast
qed

subsection \<open>The child of an accept\<close>

text \<open>
  Claim C6. When \<^verbatim>\<open>accept\<close> succeeds, the child is connected to the platform stream that
  the wait for a client returned, has the operations table, domain, type and protocol of
  the parent, has \<open>O_NONBLOCK\<close> as its flags exactly when the caller asked for it, has the
  local address recorded in the parent (the same length and the same bytes up to it), and
  has a remote address of length \<^verbatim>\<open>sizeof(ss_family)\<close>, so with an empty path, and family
  \<open>AF_UNIX\<close>; the events are the wait for a client and then the taking and the release of
  the socket lock of the parent, around the copy of the local address. When the wait for
  a client and the allocation of the handle succeeded and one of the two locks of the
  child cannot be created, \<^verbatim>\<open>accept\<close> returns \<open>ENOMEM\<close> after releasing the child, which
  holds the accepted stream, with \<^verbatim>\<open>put_handle\<close>.
\<close>

theorem accept_child:
  "(accept pal h nb = (Inr c, evs) \<and>
    local_addrlen (info_sock h) \<le> length (local_addr (info_sock h)) \<longrightarrow>
      state (info_sock c) = SOCK_CONNECTED \<and>
      ops (info_sock c) = ops (info_sock h) \<and>
      domain (info_sock c) = domain (info_sock h) \<and>
      type (info_sock c) = type (info_sock h) \<and>
      protocol (info_sock c) = protocol (info_sock h) \<and>
      flags c = (if nb then O_NONBLOCK else 0) \<and>
      local_addrlen (info_sock c) = local_addrlen (info_sock h) \<and>
      take (local_addrlen (info_sock h)) (local_addr (info_sock c)) =
        take (local_addrlen (info_sock h)) (local_addr (info_sock h)) \<and>
      remote_addrlen (info_sock c) = sizeof_ss_family \<and>
      sun_family (remote_addr (info_sock c)) = AF_UNIX \<and>
      (\<exists>ph cph. pal_handle (info_sock h) = Some ph \<and>
            pal_handle (info_sock c) = Some cph \<and>
            DkStreamWaitForClient pal ph (if nb then PAL_OPTION_NONBLOCK else 0) = Inr cph \<and>
            evs = [Ev_DkStreamWaitForClient ph (if nb then PAL_OPTION_NONBLOCK else 0),
                   Ev_lock Sock_lock, Ev_unlock Sock_lock])) \<and>
   (pal_handle (info_sock h) = Some ph \<and>
    DkStreamWaitForClient pal ph (if nb then PAL_OPTION_NONBLOCK else 0) = Inr cph \<and>
    get_new_handle pal = Some nh \<and>
    (\<not> create_lock pal Sock_lock \<or> \<not> create_lock pal Recv_lock) \<longrightarrow>
      fst (accept pal h nb) = Inl (Errno ENOMEM) \<and>
      (\<exists>child. snd (accept pal h nb) =
                 [Ev_DkStreamWaitForClient ph (if nb then PAL_OPTION_NONBLOCK else 0),
                  Ev_put_handle child] \<and>
               pal_handle (info_sock child) = Some cph))"
proof (intro conjI impI)
  assume a: "accept pal h nb = (Inr c, evs) \<and>
    local_addrlen (info_sock h) \<le> length (local_addr (info_sock h))"
  then obtain ph cph nh where
      p: "pal_handle (info_sock h) = Some ph"
      and w: "DkStreamWaitForClient pal ph (if nb then PAL_OPTION_NONBLOCK else 0) = Inr cph"
      and e: "evs = [Ev_DkStreamWaitForClient ph (if nb then PAL_OPTION_NONBLOCK else 0),
                  Ev_lock Sock_lock, Ev_unlock Sock_lock]"
      and c: "c = nh\<lparr>handle_type := TYPE_SOCK, fs := socket_builtin_fs,
                   flags := (if nb then O_NONBLOCK else 0), acc_mode := MAY_READ OR MAY_WRITE,
                   info_sock := (info_sock nh)\<lparr>
                     pal_handle := Some cph, state := SOCK_CONNECTED,
                     ops := ops (info_sock h), domain := domain (info_sock h),
                     type := type (info_sock h), protocol := protocol (info_sock h),
                     was_bound := False, read_shutdown := False, write_shutdown := False,
                     lock := Unlocked, recv_lock := Unlocked,
                     remote_addr := set_ss_family (remote_addr (info_sock nh)) AF_UNIX,
                     remote_addrlen := sizeof_ss_family,
                     local_addrlen := local_addrlen (info_sock h),
                     local_addr := memcpy (local_addr (info_sock nh)) (local_addr (info_sock h))
                                     (local_addrlen (info_sock h))\<rparr>\<rparr>"
    using accept_success [of pal h nb c evs] by blast
  show "state (info_sock c) = SOCK_CONNECTED" by (simp add: c)
  show "ops (info_sock c) = ops (info_sock h)" by (simp add: c)
  show "domain (info_sock c) = domain (info_sock h)" by (simp add: c)
  show "type (info_sock c) = type (info_sock h)" by (simp add: c)
  show "protocol (info_sock c) = protocol (info_sock h)" by (simp add: c)
  show "flags c = (if nb then O_NONBLOCK else 0)" by (simp add: c)
  show "local_addrlen (info_sock c) = local_addrlen (info_sock h)" by (simp add: c)
  show "take (local_addrlen (info_sock h)) (local_addr (info_sock c)) =
        take (local_addrlen (info_sock h)) (local_addr (info_sock h))"
    using a by (simp add: c memcpy_def)
  show "remote_addrlen (info_sock c) = sizeof_ss_family" by (simp add: c)
  show "sun_family (remote_addr (info_sock c)) = AF_UNIX"
    by (simp add: c sun_family_set_ss_family)
  show "\<exists>ph cph. pal_handle (info_sock h) = Some ph \<and>
            pal_handle (info_sock c) = Some cph \<and>
            DkStreamWaitForClient pal ph (if nb then PAL_OPTION_NONBLOCK else 0) = Inr cph \<and>
            evs = [Ev_DkStreamWaitForClient ph (if nb then PAL_OPTION_NONBLOCK else 0),
                   Ev_lock Sock_lock, Ev_unlock Sock_lock]"
    using p w e by (simp add: c)
next
  assume a: "pal_handle (info_sock h) = Some ph \<and>
    DkStreamWaitForClient pal ph (if nb then PAL_OPTION_NONBLOCK else 0) = Inr cph \<and>
    get_new_handle pal = Some nh \<and>
    (\<not> create_lock pal Sock_lock \<or> \<not> create_lock pal Recv_lock)"
  then show "fst (accept pal h nb) = Inl (Errno ENOMEM)"
    by (auto simp: accept_def Let_def)
  from a show "\<exists>child. snd (accept pal h nb) =
                 [Ev_DkStreamWaitForClient ph (if nb then PAL_OPTION_NONBLOCK else 0),
                  Ev_put_handle child] \<and>
               pal_handle (info_sock child) = Some cph"
    by (auto simp: accept_def Let_def)
qed

theorem accept_child_witness:
  "local_addrlen (info_sock listening_handle) \<le> length (local_addr (info_sock listening_handle)) \<and>
   snd (accept example_pal listening_handle True) =
     [Ev_DkStreamWaitForClient 3 PAL_OPTION_NONBLOCK, Ev_lock Sock_lock, Ev_unlock Sock_lock] \<and>
   state (info_sock (projr (fst (accept example_pal listening_handle True)))) = SOCK_CONNECTED \<and>
   flags (projr (fst (accept example_pal listening_handle True))) = O_NONBLOCK \<and>
   local_addrlen (info_sock (projr (fst (accept example_pal listening_handle True)))) = 5 \<and>
   take 5 (local_addr (info_sock (projr (fst (accept example_pal listening_handle True))))) =
     addr_x_clean \<and>
   remote_addrlen (info_sock (projr (fst (accept example_pal listening_handle True)))) = 2 \<and>
   sun_family (remote_addr (info_sock (projr (fst (accept example_pal listening_handle True))))) =
     AF_UNIX \<and>
   fst (accept (example_pal\<lparr>create_lock := (\<lambda>l. l \<noteq> Recv_lock)\<rparr>) listening_handle True) =
     Inl (Errno ENOMEM)"
proof -
  let ?r = "accept example_pal listening_handle True"
  let ?c = "projr (fst ?r)"
  let ?pal' = "example_pal\<lparr>create_lock := (\<lambda>l. l \<noteq> Recv_lock)\<rparr>"
  have ok: "\<not> isl (fst ?r)"
    by code_simp
  then have r: "?r = (Inr ?c, snd ?r)"
    by (cases "fst ?r") (simp_all add: prod_eq_iff)
  have le: "local_addrlen (info_sock listening_handle) \<le>
            length (local_addr (info_sock listening_handle))"
    by (simp add: listening_handle_def addr_x_clean_def)
  have la: "local_addrlen (info_sock listening_handle) = 5"
    and ld: "take 5 (local_addr (info_sock listening_handle)) = addr_x_clean"
    and ph: "pal_handle (info_sock listening_handle) = Some 3"
    by (simp_all add: listening_handle_def addr_x_clean_def)
  have w: "DkStreamWaitForClient ?pal' 3 (if True then PAL_OPTION_NONBLOCK else 0) = Inr 9"
    and g: "get_new_handle ?pal' = Some example_handle"
    and cl: "\<not> create_lock ?pal' Sock_lock \<or> \<not> create_lock ?pal' Recv_lock"
    by (simp_all add: example_pal_def)
  note s = accept_child [where pal = example_pal and h = listening_handle and nb = True
      and c = ?c and evs = "snd ?r", THEN conjunct1, rule_format, OF conjI [OF r le]]
  note f = accept_child [where pal = ?pal' and h = listening_handle and nb = True
      and ph = 3 and cph = 9 and nh = example_handle, THEN conjunct2, rule_format,
      OF conjI [OF ph conjI [OF w conjI [OF g cl]]]]
  have e: "snd ?r =
     [Ev_DkStreamWaitForClient 3 PAL_OPTION_NONBLOCK, Ev_lock Sock_lock, Ev_unlock Sock_lock]"
    using s ph by auto
  show ?thesis
    using le e s f la ld by (simp add: O_NONBLOCK_def sizeof_ss_family_def)
qed

subsection \<open>The platform stream field can be set twice\<close>


end
